theory Spec2Isabelle
  imports Main
begin

section \<open>Python values and exceptions\<close>

text \<open>
  The management commands of \<^verbatim>\<open>calaccess_processed/management/commands/__init__.py\<close>
  are embedded as HOL functions. Every exception the Python code can raise is a value of
  \<open>error\<close>; a function that may raise returns \<open>error + 'a\<close> with \<open>Inl\<close> for the exception.
\<close>

datatype error =
    DoesNotExist
  | MultipleObjectsReturned
  | IndexError
  | ValueError
  | TypeError
  | AttributeError
  | UnboundLocalError
  | BdbQuit
  | CommandError
  | Exception string

section \<open>Strings\<close>

text \<open>
  Python strings are modelled as lists of \<open>char\<close>; the case mappings, the cased
  characters, the digits and the white space are those of ASCII, the alphabet of the
  CAL-ACCESS office and candidate names. \<open>pyval\<close> are the Python values that the
  dictionary of \<open>parse_office_name\<close> holds.
\<close>

datatype pyval = PNone | PStr string | PInt int

definition ascii_lowercase :: string where
  "ascii_lowercase = ''abcdefghijklmnopqrstuvwxyz''"

definition ascii_uppercase :: string where
  "ascii_uppercase = ''ABCDEFGHIJKLMNOPQRSTUVWXYZ''"

definition ascii_digits :: string where
  "ascii_digits = ''0123456789''"

definition whitespace :: string where
  "whitespace = [CHR 0x09, CHR 0x0A, CHR 0x0B, CHR 0x0C, CHR 0x0D,
                 CHR 0x1C, CHR 0x1D, CHR 0x1E, CHR 0x1F, CHR 0x20]"

definition char_upper :: "char \<Rightarrow> char" where
  "char_upper c = (case map_of (zip ascii_lowercase ascii_uppercase) c of Some u \<Rightarrow> u | None \<Rightarrow> c)"

definition char_lower :: "char \<Rightarrow> char" where
  "char_lower c = (case map_of (zip ascii_uppercase ascii_lowercase) c of Some l \<Rightarrow> l | None \<Rightarrow> c)"

definition is_cased :: "char \<Rightarrow> bool" where
  "is_cased c = (c \<in> set ascii_lowercase \<or> c \<in> set ascii_uppercase)"

definition str_upper :: "string \<Rightarrow> string" where
  "str_upper s = map char_upper s"

fun title_from :: "bool \<Rightarrow> string \<Rightarrow> string" where
  "title_from previous_is_cased [] = []"
| "title_from previous_is_cased (c # s) =
     (if previous_is_cased then char_lower c else char_upper c) # title_from (is_cased c) s"

definition str_title :: "string \<Rightarrow> string" where
  "str_title s = title_from False s"

fun replace_Of_of :: "string \<Rightarrow> string" where
  "replace_Of_of (c # d # s) =
     (if c = CHR ''O'' \<and> d = CHR ''f'' then CHR ''o'' # CHR ''f'' # replace_Of_of s
      else c # replace_Of_of (d # s))"
| "replace_Of_of s = s"

definition is_space :: "char \<Rightarrow> bool" where
  "is_space c = (c \<in> set whitespace)"

definition str_strip :: "string \<Rightarrow> string" where
  "str_strip s = rev (dropWhile is_space (rev (dropWhile is_space s)))"

fun str_split :: "char \<Rightarrow> string \<Rightarrow> string list" where
  "str_split sep [] = [[]]"
| "str_split sep (c # s) =
     (if c = sep then [] # str_split sep s
      else (case str_split sep s of [] \<Rightarrow> [[c]] | p # ps \<Rightarrow> (c # p) # ps))"

fun str_join :: "string \<Rightarrow> string list \<Rightarrow> string" where
  "str_join sep [] = []"
| "str_join sep [x] = x"
| "str_join sep (x # y # ys) = x @ sep @ str_join sep (y # ys)"

definition digit_value :: "char \<Rightarrow> nat" where
  "digit_value c = (case map_of (zip ascii_digits [0, 1, 2, 3, 4, 5, 6, 7, 8, 9]) c of Some n \<Rightarrow> n | None \<Rightarrow> 0)"

definition is_digit :: "char \<Rightarrow> bool" where
  "is_digit c = (c \<in> set ascii_digits)"

definition py_int :: "pyval \<Rightarrow> error + int" where
  "py_int v = (case v of
       PNone \<Rightarrow> Inl TypeError
     | PInt n \<Rightarrow> Inr n
     | PStr s \<Rightarrow>
         if s \<noteq> [] \<and> list_all is_digit s
         then Inr (int (foldl (\<lambda>n c. 10 * n + digit_value c) 0 s))
         else Inl ValueError)"

fun str_nat :: "nat \<Rightarrow> string" where
  "str_nat n = (if n < 10 then [ascii_digits ! n] else str_nat (n div 10) @ [ascii_digits ! (n mod 10)])"

declare str_nat.simps [simp del]

definition py_str :: "pyval \<Rightarrow> string" where
  "py_str v = (case v of
       PNone \<Rightarrow> ''None''
     | PStr s \<Rightarrow> s
     | PInt i \<Rightarrow> if i < 0 then CHR ''-'' # str_nat (nat (- i)) else str_nat (nat i))"

definition office_type_char :: "char \<Rightarrow> bool" where
  "office_type_char c = (c \<in> set ascii_uppercase \<or> c = CHR '' '')"

definition re_match_office :: "string \<Rightarrow> (string \<times> string option) option" where
  "re_match_office s =
     (let t = takeWhile office_type_char s;
          r = dropWhile office_type_char s
      in if t = [] then None
         else (case r of
                 [] \<Rightarrow> Some (t, None)
               | [n] \<Rightarrow> if n = CHR 0x0A then Some (t, None) else None
               | [d1, d2] \<Rightarrow> if is_digit d1 \<and> is_digit d2 then Some (t, Some [d1, d2]) else None
               | [d1, d2, n] \<Rightarrow>
                   if is_digit d1 \<and> is_digit d2 \<and> n = CHR 0x0A then Some (t, Some [d1, d2])
                   else None
               | _ \<Rightarrow> None))"

definition groupdict :: "string \<times> string option \<Rightarrow> (string \<rightharpoonup> pyval)" where
  "groupdict m = (case m of (t, d) \<Rightarrow>
     [''type'' \<mapsto> PStr t, ''district'' \<mapsto> (case d of None \<Rightarrow> PNone | Some ds \<Rightarrow> PStr ds)])"

definition py_strip_val :: "pyval \<Rightarrow> error + pyval" where
  "py_strip_val v = (case v of PStr s \<Rightarrow> Inr (PStr (str_strip s)) | _ \<Rightarrow> Inl AttributeError)"

definition dict_get :: "(string \<rightharpoonup> pyval) \<Rightarrow> string \<Rightarrow> error + pyval" where
  "dict_get d k = (case d k of None \<Rightarrow> Inl (Exception ''KeyError'') | Some v \<Rightarrow> Inr v)"

definition parse_office_name :: "string \<Rightarrow> error + (string \<rightharpoonup> pyval)" where
  "parse_office_name office_name =
     (case re_match_office (str_upper office_name) of
        None \<Rightarrow> Inr [''type'' \<mapsto> PNone, ''district'' \<mapsto> PNone]
      | Some m \<Rightarrow>
          (case dict_get (groupdict m) ''type'' of
             Inl e \<Rightarrow> Inl e
           | Inr ty \<Rightarrow>
              (case py_strip_val ty of
                 Inl e \<Rightarrow> Inl e
               | Inr stripped \<Rightarrow>
                  (let parsed = (groupdict m)(''type'' \<mapsto> stripped) in
                   case dict_get parsed ''district'' of
                     Inl e \<Rightarrow> Inl e
                   | Inr dv \<Rightarrow>
                      (case py_int dv of
                         Inl TypeError \<Rightarrow> Inr parsed
                       | Inl e \<Rightarrow> Inl e
                       | Inr n \<Rightarrow> Inr (parsed(''district'' \<mapsto> PInt n)))))))"

section \<open>The static correction table\<close>

text \<open>
  \<^verbatim>\<open>calaccess_processed.candidate_party_corrections.corrections\<close> is a sequence of
  tuples (candidate name, year, election type, office, party). The table itself is data of
  another module, so it is an argument of the function.
\<close>

type_synonym correction = "string \<times> int \<times> string \<times> string \<times> string"

definition correction_matches :: "string \<Rightarrow> int \<Rightarrow> string \<Rightarrow> string \<Rightarrow> correction \<Rightarrow> bool" where
  "correction_matches candidate_name year election_type office i =
     (case i of (i0, i1, i2, i3, i_last) \<Rightarrow>
        i0 = candidate_name \<and> i1 = year \<and> i2 = election_type \<and> i3 = office)"

definition correction_party :: "correction \<Rightarrow> string" where
  "correction_party i = (case i of (i0, i1, i2, i3, i_last) \<Rightarrow> i_last)"

definition lookup_candidate_party_correction ::
  "correction list \<Rightarrow> string \<Rightarrow> int \<Rightarrow> string \<Rightarrow> string \<Rightarrow> error + string option" where
  "lookup_candidate_party_correction corrections candidate_name year election_type office =
     (let filtered = map correction_party
            (filter (correction_matches candidate_name year election_type office) corrections)
      in if length filtered > 1 then Inl (Exception ''More than one correction found.'')
         else if length filtered = 0 then Inr None
         else Inr (Some (filtered ! 0)))"

section \<open>Dates\<close>

text \<open>
  \<^verbatim>\<open>datetime.date\<close> of the Python standard library: the proleptic Gregorian calendar of
  the years \<open>MINYEAR = 1\<close> to \<open>MAXYEAR = 9999\<close>. The constructor raises \<open>ValueError\<close> for a
  field out of range; \<open>weekday\<close> counts from Monday, which is 0.
\<close>

record date =
  date_year :: int
  date_month :: int
  date_day :: int

definition is_leap :: "int \<Rightarrow> bool" where
  "is_leap y = (y mod 4 = 0 \<and> (y mod 100 \<noteq> 0 \<or> y mod 400 = 0))"

definition days_before_year :: "int \<Rightarrow> int" where
  "days_before_year year = (let y = year - 1 in y * 365 + y div 4 - y div 100 + y div 400)"

definition month_lengths :: "int list" where
  "month_lengths = [31, 28, 31, 30, 31, 30, 31, 31, 30, 31, 30, 31]"

definition days_in_month :: "int \<Rightarrow> int \<Rightarrow> int" where
  "days_in_month y m = (if m = 2 \<and> is_leap y then 29 else month_lengths ! nat (m - 1))"

definition days_before_month :: "int \<Rightarrow> int \<Rightarrow> int" where
  "days_before_month y m =
     sum_list (take (nat (m - 1)) month_lengths) + (if m > 2 \<and> is_leap y then 1 else 0)"

definition ymd2ord :: "int \<Rightarrow> int \<Rightarrow> int \<Rightarrow> int" where
  "ymd2ord y m d = days_before_year y + days_before_month y m + d"

definition new_date :: "int \<Rightarrow> int \<Rightarrow> int \<Rightarrow> error + date" where
  "new_date y m d =
     (if \<not> (1 \<le> y \<and> y \<le> 9999) then Inl ValueError
      else if \<not> (1 \<le> m \<and> m \<le> 12) then Inl ValueError
      else if \<not> (1 \<le> d \<and> d \<le> days_in_month y m) then Inl ValueError
      else Inr \<lparr>date_year = y, date_month = m, date_day = d\<rparr>)"

definition toordinal :: "date \<Rightarrow> int" where
  "toordinal dt = ymd2ord (date_year dt) (date_month dt) (date_day dt)"

definition weekday :: "date \<Rightarrow> int" where
  "weekday dt = (toordinal dt + 6) mod 7"

section \<open>Regular election dates\<close>

definition get_regular_election_date :: "int \<Rightarrow> string \<Rightarrow> error + date" where
  "get_regular_election_date year election_type =
     (if year mod 2 \<noteq> 0 then Inl (Exception ''Regular elections occur in even years.'')
      else
        (case (if str_upper election_type = ''PRIMARY'' then Inr 6
               else if str_upper election_type = ''GENERAL'' then Inr 11
               else Inl (Exception ''election_type must 'PRIMARY' or 'GENERAL'.'')) of
           Inl e \<Rightarrow> Inl e
         | Inr month \<Rightarrow>
            (case new_date year month 1 of
               Inl e \<Rightarrow> Inl e
             | Inr first \<Rightarrow>
                (let first_weekday = weekday first;
                     day_or_month = (7 - first_weekday) mod 7 + 2
                 in new_date year month day_or_month))))"

text \<open>
  The rule in the words of the election code, for comparison with the arithmetic of
  \<open>get_regular_election_date\<close>: the first Monday of the month is the earliest of its first
  seven days that is a Monday; the election is on the day after it.
\<close>

definition first_monday :: "int \<Rightarrow> int \<Rightarrow> int option" where
  "first_monday y m =
     List.find (\<lambda>d. weekday \<lparr>date_year = y, date_month = m, date_day = d\<rparr> = 0) [1, 2, 3, 4, 5, 6, 7]"

definition first_tuesday_after_first_monday :: "int \<Rightarrow> int \<Rightarrow> date option" where
  "first_tuesday_after_first_monday y m =
     (case first_monday y m of
        None \<Rightarrow> None
      | Some d \<Rightarrow> Some \<lparr>date_year = y, date_month = m, date_day = d + 1\<rparr>)"

section \<open>The database\<close>

text \<open>
  The tables of the Open Civic Data models that the commands read and write through the
  Django ORM. A table is the list of its rows in the order the database returns them; a
  foreign key holds the id of the row it points to. New rows take their id from \<open>next_id\<close>
  (the ORM draws a fresh UUID). \<open>contest_posts\<close> are the rows of
  \<^verbatim>\<open>contest.posts\<close>, in their \<open>sort_order\<close>.
\<close>

record person =
  pers_id :: nat
  pers_name :: string
  pers_sort_name :: string

record person_identifier =
  pi_person :: nat
  pi_scheme :: string
  pi_identifier :: string

record organization =
  org_id :: nat
  org_name :: string
  org_classification :: string
  org_parent :: "nat option"

record organization_identifier =
  oi_organization :: nat
  oi_scheme :: string
  oi_identifier :: string

record organization_name =
  on_organization :: nat
  on_name :: string

record division =
  div_id :: nat
  div_subid1 :: string
  div_subtype2 :: string
  div_subid2 :: string

record post =
  post_id :: nat
  post_label :: string
  post_role :: string
  post_division :: nat
  post_organization :: nat

record contest_post =
  cp_contest :: nat
  cp_post :: nat

record candidacy =
  cand_id :: nat
  cand_contest :: nat
  cand_person :: nat
  cand_post :: nat
  cand_candidate_name :: string
  cand_registration_status :: "string option"

record database =
  persons :: "person list"
  person_identifiers :: "person_identifier list"
  organizations :: "organization list"
  organization_identifiers :: "organization_identifier list"
  organization_names :: "organization_name list"
  divisions :: "division list"
  posts :: "post list"
  contest_posts :: "contest_post list"
  candidacies :: "candidacy list"
  next_id :: nat

text \<open>
  \<^verbatim>\<open>FilerToFilerTypeCd\<close> is a table of the raw CAL-ACCESS data; its rows are an argument
  of \<open>get_party_for_filer_id\<close>. The effective date is of any linearly ordered type.
\<close>

record 'd filer_to_filer_type_cd =
  ft_filer_id :: int
  ft_effect_dt :: 'd
  ft_party_cd :: int

text \<open>
  The attributes that \<^verbatim>\<open>LoadOCDModelsCommand.handle\<close> sets on the command: the ids
  of the state division and of the two organizations.
\<close>

record command =
  state_division :: nat
  executive_branch :: nat
  sos :: nat

subsection \<open>Queries\<close>

text \<open>\<^verbatim>\<open>QuerySet.get\<close>: the single row of a result, or one of two exceptions.\<close>

fun get_one :: "'a list \<Rightarrow> error + 'a" where
  "get_one [] = Inl DoesNotExist"
| "get_one [x] = Inr x"
| "get_one (x # y # zs) = Inl MultipleObjectsReturned"

text \<open>
  \<^verbatim>\<open>Person.objects.filter(identifiers__scheme='calaccess_filer_id',
  identifiers__identifier=filer_id)\<close> joins the persons with their identifiers: a person
  is in the result once for every identifier row that satisfies both conditions. The query
  has no ordering of its own; the rows come in the order of the tables, the same at every
  evaluation of the query.
\<close>

definition has_filer_id :: "string \<Rightarrow> nat \<Rightarrow> person_identifier \<Rightarrow> bool" where
  "has_filer_id filer_id pid i =
     (pi_person i = pid \<and> pi_scheme i = ''calaccess_filer_id'' \<and> pi_identifier i = filer_id)"

definition persons_by_filer_id :: "database \<Rightarrow> string \<Rightarrow> person list" where
  "persons_by_filer_id db filer_id =
     concat (map (\<lambda>p. map (\<lambda>i. p) (filter (has_filer_id filer_id (pers_id p)) (person_identifiers db)))
                 (persons db))"

text \<open>The persons that carry the filer_id: those with an identifier row of that value.\<close>

definition carries_filer_id :: "database \<Rightarrow> string \<Rightarrow> person \<Rightarrow> bool" where
  "carries_filer_id db filer_id p = list_ex (has_filer_id filer_id (pers_id p)) (person_identifiers db)"

definition carriers :: "database \<Rightarrow> string \<Rightarrow> person list" where
  "carriers db filer_id = filter (carries_filer_id db filer_id) (persons db)"

text \<open>
  The filer_id is confined to \<open>sid\<close> and \<open>ps\<close> when every person record that carries
  it has the id \<open>sid\<close> or the id of a person of \<open>ps\<close>.
\<close>

definition filer_id_confined :: "database \<Rightarrow> string \<Rightarrow> nat \<Rightarrow> person list \<Rightarrow> bool" where
  "filer_id_confined db filer_id sid ps =
     (\<forall>q \<in> set (persons db). carries_filer_id db filer_id q \<longrightarrow>
        pers_id q = sid \<or> pers_id q \<in> pers_id ` set ps)"

text \<open>\<^verbatim>\<open>Organization.objects.get(other_names__name=party)\<close>, the same join.\<close>

definition organizations_by_other_name :: "database \<Rightarrow> string \<Rightarrow> organization list" where
  "organizations_by_other_name db name =
     concat (map (\<lambda>org. map (\<lambda>n. org)
                    (filter (\<lambda>n. on_organization n = org_id org \<and> on_name n = name) (organization_names db)))
                 (organizations db))"

text \<open>\<^verbatim>\<open>Organization.objects.get(identifiers__identifier=party_cd)\<close>.\<close>

definition organizations_by_identifier :: "database \<Rightarrow> string \<Rightarrow> organization list" where
  "organizations_by_identifier db ident =
     concat (map (\<lambda>org. map (\<lambda>i. org)
                    (filter (\<lambda>i. oi_organization i = org_id org \<and> oi_identifier i = ident)
                       (organization_identifiers db)))
                 (organizations db))"

definition organizations_by_name :: "database \<Rightarrow> string \<Rightarrow> organization list" where
  "organizations_by_name db name = filter (\<lambda>org. org_name org = name) (organizations db)"

definition parties :: "database \<Rightarrow> organization list" where
  "parties db = filter (\<lambda>org. org_classification org = ''party'') (organizations db)"

section \<open>Merging persons\<close>

text \<open>
  \<^verbatim>\<open>opencivicdata.merge.merge(obj1, obj2)\<close> of the Open Civic Data library: it refuses
  to merge an object with itself; otherwise every row related to \<open>obj2\<close> (here its
  identifiers and its candidacies) is pointed to \<open>obj1\<close>, \<open>obj1\<close> gains an identifier
  that holds the id of \<open>obj2\<close>, \<open>obj1\<close> is saved and \<open>obj2\<close> is deleted.
\<close>

definition ocd_person_id :: "nat \<Rightarrow> string" where
  "ocd_person_id n = ''ocd-person/'' @ str_nat n"

definition merge :: "person \<Rightarrow> person \<Rightarrow> database \<Rightarrow> error + database" where
  "merge obj1 obj2 db =
     (if pers_id obj1 = pers_id obj2 then Inl ValueError
      else Inr (db\<lparr>
        person_identifiers :=
          map (\<lambda>i. if pi_person i = pers_id obj2 then i\<lparr>pi_person := pers_id obj1\<rparr> else i)
              (person_identifiers db)
          @ [\<lparr>pi_person = pers_id obj1, pi_scheme = [],
               pi_identifier = ocd_person_id (pers_id obj2)\<rparr>],
        candidacies :=
          map (\<lambda>c. if cand_person c = pers_id obj2 then c\<lparr>cand_person := pers_id obj1\<rparr> else c)
              (candidacies db),
        persons :=
          filter (\<lambda>p. pers_id p \<noteq> pers_id obj2)
            (map (\<lambda>p. if pers_id p = pers_id obj1 then obj1 else p) (persons db))\<rparr>))"

text \<open>
  \<^verbatim>\<open>import ipdb; ipdb.set_trace()\<close> stops at a breakpoint. What happens next is the
  operator's answer, an argument of every function that can reach a breakpoint: the run
  continues after the breakpoint, or it is quit with \<open>BdbQuit\<close>.
\<close>

datatype debugger = Continue | Quit

definition set_trace :: "debugger \<Rightarrow> error + unit" where
  "set_trace dbg = (case dbg of Continue \<Rightarrow> Inr () | Quit \<Rightarrow> Inl BdbQuit)"

text \<open>
  The loop of \<open>merge_persons\<close> over \<^verbatim>\<open>persons[1:]\<close>. The persons are the objects
  fetched before the loop: their names are compared as they were then, while every merge
  works on the database as the merges before it left it.
\<close>

fun merge_loop :: "debugger \<Rightarrow> person \<Rightarrow> person list \<Rightarrow> database \<Rightarrow> error + database" where
  "merge_loop dbg survivor [] db = Inr db"
| "merge_loop dbg survivor (p # ps) db =
     (if pers_id survivor \<noteq> pers_id p then
        (if pers_name survivor \<noteq> pers_name p \<or> pers_sort_name survivor \<noteq> pers_sort_name p
         then (case set_trace dbg of
                 Inl e \<Rightarrow> Inl e
               | Inr u \<Rightarrow> merge_loop dbg survivor ps db)
         else (case merge survivor p db of
                 Inl e \<Rightarrow> Inl e
               | Inr db' \<Rightarrow> merge_loop dbg survivor ps db'))
      else merge_loop dbg survivor ps db)"

text \<open>
  \<^verbatim>\<open>survivor.identifiers.filter(scheme='calaccess_filer_id')[1:]\<close> are deleted: of the
  survivor's identifiers of that scheme only the first stays. \<open>seen\<close> tells whether the
  first has been passed.
\<close>

fun delete_later_filer_ids :: "nat \<Rightarrow> bool \<Rightarrow> person_identifier list \<Rightarrow> person_identifier list" where
  "delete_later_filer_ids pid seen [] = []"
| "delete_later_filer_ids pid seen (i # rest) =
     (if pi_person i = pid \<and> pi_scheme i = ''calaccess_filer_id''
      then (if seen then delete_later_filer_ids pid True rest
            else i # delete_later_filer_ids pid True rest)
      else i # delete_later_filer_ids pid seen rest)"

definition merge_persons :: "debugger \<Rightarrow> database \<Rightarrow> string \<Rightarrow> error + (person \<times> database)" where
  "merge_persons dbg db filer_id =
     (case persons_by_filer_id db filer_id of
        [] \<Rightarrow> Inl IndexError
      | survivor # rest \<Rightarrow>
          (case merge_loop dbg survivor rest db of
             Inl e \<Rightarrow> Inl e
           | Inr db1 \<Rightarrow>
               if length (filter (\<lambda>i. pi_person i = pers_id survivor) (person_identifiers db1)) > 1
               then Inr (survivor,
                         db1\<lparr>person_identifiers :=
                           delete_later_filer_ids (pers_id survivor) False (person_identifiers db1)\<rparr>)
               else Inr (survivor, db1)))"

section \<open>Persons and candidacies\<close>

definition truthy :: "string option \<Rightarrow> bool" where
  "truthy filer_id = (case filer_id of None \<Rightarrow> False | Some f \<Rightarrow> f \<noteq> [])"

text \<open>The first half of \<open>get_or_create_person\<close>: the lookup by filer_id.\<close>

definition lookup_person :: "debugger \<Rightarrow> database \<Rightarrow> string option \<Rightarrow> error + (person option \<times> database)" where
  "lookup_person dbg db filer_id =
     (case filer_id of
        None \<Rightarrow> Inr (None, db)
      | Some f \<Rightarrow>
          if f \<noteq> [] \<and> f \<noteq> ''''
          then (case get_one (persons_by_filer_id db f) of
                  Inr p \<Rightarrow> Inr (Some p, db)
                | Inl MultipleObjectsReturned \<Rightarrow>
                    (case merge_persons dbg db f of
                       Inl e \<Rightarrow> Inl e
                     | Inr (p, db') \<Rightarrow> Inr (Some p, db'))
                | Inl DoesNotExist \<Rightarrow> Inr (None, db)
                | Inl e \<Rightarrow> Inl e)
          else Inr (None, db))"

definition create_person :: "database \<Rightarrow> string \<Rightarrow> string option \<Rightarrow> person \<times> database" where
  "create_person db name filer_id =
     (let split_name = rev (str_split CHR '','' name);
          person = \<lparr>pers_id = next_id db,
                    pers_name = str_strip (str_join '' '' split_name),
                    pers_sort_name = name\<rparr>;
          db1 = db\<lparr>persons := persons db @ [person], next_id := Suc (next_id db)\<rparr>
      in case filer_id of
           None \<Rightarrow> (person, db1)
         | Some f \<Rightarrow>
             if f \<noteq> []
             then (person,
                   db1\<lparr>person_identifiers := person_identifiers db1 @
                     [\<lparr>pi_person = pers_id person, pi_scheme = ''calaccess_filer_id'',
                       pi_identifier = f\<rparr>]\<rparr>)
             else (person, db1))"

definition get_or_create_person ::
  "debugger \<Rightarrow> database \<Rightarrow> string \<Rightarrow> string option \<Rightarrow> error + (person \<times> bool \<times> database)" where
  "get_or_create_person dbg db name filer_id =
     (case lookup_person dbg db filer_id of
        Inl e \<Rightarrow> Inl e
      | Inr (Some person, db1) \<Rightarrow> Inr (person, False, db1)
      | Inr (None, db1) \<Rightarrow>
          (case create_person db1 name filer_id of (person, db2) \<Rightarrow> Inr (person, True, db2)))"

text \<open>\<^verbatim>\<open>contest_obj.posts.all()[0].post\<close>.\<close>

definition first_post :: "database \<Rightarrow> nat \<Rightarrow> error + nat" where
  "first_post db contest =
     (case filter (\<lambda>cp. cp_contest cp = contest) (contest_posts db) of
        [] \<Rightarrow> Inl IndexError
      | cp # rest \<Rightarrow> Inr (cp_post cp))"

text \<open>\<^verbatim>\<open>contest_obj.candidacies.create(person=..., post=..., candidate_name=...)\<close>.\<close>

definition create_candidacy :: "database \<Rightarrow> nat \<Rightarrow> nat \<Rightarrow> nat \<Rightarrow> string \<Rightarrow> candidacy \<times> database" where
  "create_candidacy db contest pid post name =
     (let c = \<lparr>cand_id = next_id db, cand_contest = contest, cand_person = pid, cand_post = post,
               cand_candidate_name = name, cand_registration_status = None\<rparr>
      in (c, db\<lparr>candidacies := candidacies db @ [c], next_id := Suc (next_id db)\<rparr>))"

text \<open>
  \<^verbatim>\<open>contest_obj.candidacies.get(post=..., person__sort_name=person_name)\<close>: the
  candidacies of the contest for that post, joined with their person.
\<close>

definition candidacies_by_sort_name :: "database \<Rightarrow> nat \<Rightarrow> nat \<Rightarrow> string \<Rightarrow> candidacy list" where
  "candidacies_by_sort_name db contest post person_name =
     filter (\<lambda>c. cand_contest c = contest \<and> cand_post c = post \<and>
                 list_ex (\<lambda>p. pers_id p = cand_person c \<and> pers_sort_name p = person_name) (persons db))
            (candidacies db)"

definition candidacies_by_person :: "database \<Rightarrow> nat \<Rightarrow> nat \<Rightarrow> nat \<Rightarrow> string \<Rightarrow> candidacy list" where
  "candidacies_by_person db contest pid post name =
     filter (\<lambda>c. cand_contest c = contest \<and> cand_person c = pid \<and> cand_post c = post \<and>
                 cand_candidate_name c = name)
            (candidacies db)"

text \<open>\<^verbatim>\<open>candidacy.save()\<close> writes the object to its row.\<close>

definition save_candidacy :: "database \<Rightarrow> candidacy \<Rightarrow> database" where
  "save_candidacy db c =
     db\<lparr>candidacies := map (\<lambda>r. if cand_id r = cand_id c then c else r) (candidacies db)\<rparr>"

text \<open>
  Both branches of \<open>get_or_create_candidacy\<close> up to the registration status. After the
  breakpoint of the branch for several matches neither \<open>candidacy\<close> nor
  \<open>candidacy_created\<close> is bound, so a continued run ends in \<open>UnboundLocalError\<close>. The
  messages that the command logs are left out.
\<close>

definition find_or_create_candidacy ::
  "debugger \<Rightarrow> database \<Rightarrow> nat \<Rightarrow> string \<Rightarrow> string option \<Rightarrow> error + (candidacy \<times> bool \<times> database)" where
  "find_or_create_candidacy dbg db contest_obj person_name filer_id =
     (if truthy filer_id then
        (case get_or_create_person dbg db person_name filer_id of
           Inl e \<Rightarrow> Inl e
         | Inr (person, person_created, db1) \<Rightarrow>
            (case first_post db1 contest_obj of
               Inl e \<Rightarrow> Inl e
             | Inr post \<Rightarrow>
                (case get_one (candidacies_by_person db1 contest_obj (pers_id person) post person_name) of
                   Inr c \<Rightarrow> Inr (c, False, db1)
                 | Inl DoesNotExist \<Rightarrow>
                     (case create_candidacy db1 contest_obj (pers_id person) post person_name of
                        (c, db2) \<Rightarrow> Inr (c, True, db2))
                 | Inl e \<Rightarrow> Inl e)))
      else
        (case first_post db contest_obj of
           Inl e \<Rightarrow> Inl e
         | Inr post \<Rightarrow>
            (case get_one (candidacies_by_sort_name db contest_obj post person_name) of
               Inr c \<Rightarrow> Inr (c, False, db)
             | Inl MultipleObjectsReturned \<Rightarrow>
                 (case set_trace dbg of
                    Inl e \<Rightarrow> Inl e
                  | Inr u \<Rightarrow> Inl UnboundLocalError)
             | Inl DoesNotExist \<Rightarrow>
                 (case get_or_create_person dbg db person_name None of
                    Inl e \<Rightarrow> Inl e
                  | Inr (person, person_created, db1) \<Rightarrow>
                     (case first_post db1 contest_obj of
                        Inl e \<Rightarrow> Inl e
                      | Inr post1 \<Rightarrow>
                         (case create_candidacy db1 contest_obj (pers_id person) post1 person_name of
                            (c, db2) \<Rightarrow> Inr (c, True, db2))))
             | Inl e \<Rightarrow> Inl e)))"

definition get_or_create_candidacy ::
  "debugger \<Rightarrow> database \<Rightarrow> nat \<Rightarrow> string \<Rightarrow> string option \<Rightarrow> string option
     \<Rightarrow> error + (candidacy \<times> bool \<times> database)" where
  "get_or_create_candidacy dbg db contest_obj person_name registration_status filer_id =
     (case find_or_create_candidacy dbg db contest_obj person_name filer_id of
        Inl e \<Rightarrow> Inl e
      | Inr (candidacy, candidacy_created, db1) \<Rightarrow>
          if cand_registration_status candidacy \<noteq> registration_status
          then (let candidacy' = candidacy\<lparr>cand_registration_status := registration_status\<rparr>
                in Inr (candidacy', candidacy_created, save_candidacy db1 candidacy'))
          else Inr (candidacy, candidacy_created, db1))"

section \<open>Posts\<close>

text \<open>
  \<^verbatim>\<open>Organization.objects.get_or_create(name=..., classification=..., parent=...)\<close>: the
  keyword arguments that a call gives are the lookup; a new row has them and the defaults
  of the model (an empty classification, no parent).
\<close>

definition organization_matches :: "string \<Rightarrow> string option \<Rightarrow> nat option \<Rightarrow> organization \<Rightarrow> bool" where
  "organization_matches name classification parent org =
     (org_name org = name \<and>
      (case classification of None \<Rightarrow> True | Some c \<Rightarrow> org_classification org = c) \<and>
      (case parent of None \<Rightarrow> True | Some p \<Rightarrow> org_parent org = Some p))"

definition organization_get_or_create ::
  "database \<Rightarrow> string \<Rightarrow> string option \<Rightarrow> nat option \<Rightarrow> error + (organization \<times> bool \<times> database)" where
  "organization_get_or_create db name classification parent =
     (case get_one (filter (organization_matches name classification parent) (organizations db)) of
        Inr org \<Rightarrow> Inr (org, False, db)
      | Inl DoesNotExist \<Rightarrow>
          (let org = \<lparr>org_id = next_id db, org_name = name,
                      org_classification = (case classification of None \<Rightarrow> [] | Some c \<Rightarrow> c),
                      org_parent = parent\<rparr>
           in Inr (org, True, db\<lparr>organizations := organizations db @ [org],
                                 next_id := Suc (next_id db)\<rparr>))
      | Inl e \<Rightarrow> Inl e)"

text \<open>\<^verbatim>\<open>Division.objects.get(subid1='ca', subtype2=..., subid2=...)\<close>.\<close>

definition get_division :: "database \<Rightarrow> string \<Rightarrow> string \<Rightarrow> string \<Rightarrow> error + division" where
  "get_division db subid1 subtype2 subid2 =
     get_one (filter (\<lambda>d. div_subid1 d = subid1 \<and> div_subtype2 d = subtype2 \<and> div_subid2 d = subid2)
                (divisions db))"

text \<open>The dictionary \<open>raw_post\<close>: its four keys are set on every path.\<close>

record raw_post =
  raw_label :: string
  raw_division :: nat
  raw_organization :: nat
  raw_role :: string

definition post_matches :: "raw_post \<Rightarrow> post \<Rightarrow> bool" where
  "post_matches raw p =
     (post_label p = raw_label raw \<and> post_division p = raw_division raw \<and>
      post_organization p = raw_organization raw \<and> post_role p = raw_role raw)"

text \<open>The preparation of \<open>raw_post\<close> in \<open>get_or_create_post\<close>.\<close>

definition prepare_raw_post :: "command \<Rightarrow> database \<Rightarrow> string \<Rightarrow> error + (raw_post \<times> database)" where
  "prepare_raw_post self db office_name =
     (case parse_office_name office_name of
        Inl e \<Rightarrow> Inl e
      | Inr parsed_office \<Rightarrow>
         (let label = replace_Of_of (str_title office_name) in
          if parsed_office ''type'' = Some (PStr ''STATE SENATE'') then
            (case dict_get parsed_office ''district'' of
               Inl e \<Rightarrow> Inl e
             | Inr district \<Rightarrow>
                (case get_division db ''ca'' ''sldu'' (py_str district) of
                   Inl e \<Rightarrow> Inl e
                 | Inr d \<Rightarrow>
                    (case organization_get_or_create db ''California State Senate'' (Some ''upper'') None of
                       Inl e \<Rightarrow> Inl e
                     | Inr (org, created, db1) \<Rightarrow>
                         Inr (\<lparr>raw_label = label, raw_division = div_id d,
                               raw_organization = org_id org, raw_role = ''Senator''\<rparr>, db1))))
          else if parsed_office ''type'' = Some (PStr ''ASSEMBLY'') then
            (case dict_get parsed_office ''district'' of
               Inl e \<Rightarrow> Inl e
             | Inr district \<Rightarrow>
                (case get_division db ''ca'' ''sldl'' (py_str district) of
                   Inl e \<Rightarrow> Inl e
                 | Inr d \<Rightarrow>
                    (case organization_get_or_create db ''California State Assembly'' (Some ''lower'') None of
                       Inl e \<Rightarrow> Inl e
                     | Inr (org, created, db1) \<Rightarrow>
                         Inr (\<lparr>raw_label = label, raw_division = div_id d,
                               raw_organization = org_id org, raw_role = ''Assembly Member''\<rparr>, db1))))
          else if parsed_office ''type'' = Some (PStr ''MEMBER BOARD OF EQUALIZATION'') then
            (case organization_get_or_create db ''State Board of Equalization'' None
                    (Some (executive_branch self)) of
               Inl e \<Rightarrow> Inl e
             | Inr (org, created, db1) \<Rightarrow>
                 Inr (\<lparr>raw_label = label, raw_division = state_division self,
                       raw_organization = org_id org, raw_role = ''Board Member''\<rparr>, db1))
          else if parsed_office ''type'' = Some (PStr ''SECRETARY OF STATE'') then
            Inr (\<lparr>raw_label = label, raw_division = state_division self,
                  raw_organization = sos self, raw_role = label\<rparr>, db)
          else
            Inr (\<lparr>raw_label = label, raw_division = state_division self,
                  raw_organization = executive_branch self, raw_role = label\<rparr>, db)))"

definition get_or_create_post ::
  "command \<Rightarrow> database \<Rightarrow> string \<Rightarrow> bool \<Rightarrow> error + (post option \<times> bool \<times> database)" where
  "get_or_create_post self db office_name get_only =
     (case prepare_raw_post self db office_name of
        Inl e \<Rightarrow> Inl e
      | Inr (raw, db1) \<Rightarrow>
          if get_only then
            (case get_one (filter (post_matches raw) (posts db1)) of
               Inr p \<Rightarrow> Inr (Some p, False, db1)
             | Inl DoesNotExist \<Rightarrow> Inr (None, False, db1)
             | Inl e \<Rightarrow> Inl e)
          else
            (case get_one (filter (post_matches raw) (posts db1)) of
               Inr p \<Rightarrow> Inr (Some p, False, db1)
             | Inl DoesNotExist \<Rightarrow>
                 (let p = \<lparr>post_id = next_id db1, post_label = raw_label raw,
                           post_role = raw_role raw, post_division = raw_division raw,
                           post_organization = raw_organization raw\<rparr>
                  in Inr (Some p, True, db1\<lparr>posts := posts db1 @ [p], next_id := Suc (next_id db1)\<rparr>))
             | Inl e \<Rightarrow> Inl e))"

section \<open>Parties\<close>

text \<open>
  \<^verbatim>\<open>call_command('loadparties', ...)\<close> runs another command of the package; what it
  does to the database is the argument \<open>loadparties\<close>.
\<close>

definition lookup_party ::
  "(database \<Rightarrow> error + database) \<Rightarrow> database \<Rightarrow> string \<Rightarrow> error + (organization \<times> database)" where
  "lookup_party loadparties db party =
     (case (if parties db = [] then loadparties db else Inr db) of
        Inl e \<Rightarrow> Inl e
      | Inr db1 \<Rightarrow>
         (case get_one (filter (\<lambda>org. org_name org = party) (parties db1)) of
            Inr found \<Rightarrow> Inr (found, db1)
          | Inl DoesNotExist \<Rightarrow>
              (case get_one (organizations_by_other_name db1 party) of
                 Inr found \<Rightarrow> Inr (found, db1)
               | Inl DoesNotExist \<Rightarrow>
                   (case get_one (organizations_by_name db1 ''UNKNOWN'') of
                      Inr found \<Rightarrow> Inr (found, db1)
                    | Inl e \<Rightarrow> Inl e)
               | Inl e \<Rightarrow> Inl e)
          | Inl e \<Rightarrow> Inl e))"

text \<open>
  \<^verbatim>\<open>.filter(filer_id=..., effect_dt__lte=election_date).latest('effect_dt')\<close>: the row
  with the greatest effective date (of several with that date, the first), or
  \<open>DoesNotExist\<close> when the filter leaves no row.
\<close>

definition effective_rows ::
  "('d::linorder) filer_to_filer_type_cd list \<Rightarrow> int \<Rightarrow> 'd \<Rightarrow> 'd filer_to_filer_type_cd list" where
  "effective_rows rows filer_id election_date =
     filter (\<lambda>r. ft_filer_id r = filer_id \<and> ft_effect_dt r \<le> election_date) rows"

fun latest :: "('d::linorder) filer_to_filer_type_cd list \<Rightarrow> error + 'd filer_to_filer_type_cd" where
  "latest [] = Inl DoesNotExist"
| "latest (r # rs) =
     Inr (foldl (\<lambda>best x. if ft_effect_dt best < ft_effect_dt x then x else best) r rs)"

definition recode_party_cd :: "int \<Rightarrow> int" where
  "recode_party_cd party_cd = (if party_cd = 16007 \<or> party_cd = 16009 then 16012 else party_cd)"

definition get_party_for_filer_id ::
  "('d::linorder) filer_to_filer_type_cd list \<Rightarrow> database \<Rightarrow> int \<Rightarrow> 'd \<Rightarrow> error + organization" where
  "get_party_for_filer_id rows db filer_id election_date =
     (case latest (effective_rows rows filer_id election_date) of
        Inl DoesNotExist \<Rightarrow> get_one (organizations_by_name db ''UNKNOWN'')
      | Inl e \<Rightarrow> Inl e
      | Inr row \<Rightarrow>
          (let party_cd = recode_party_cd (ft_party_cd row) in
           case get_one (organizations_by_identifier db (py_str (PInt party_cd))) of
             Inl DoesNotExist \<Rightarrow> get_one (organizations_by_name db ''UNKNOWN'')
           | Inl e \<Rightarrow> Inl e
           | Inr party \<Rightarrow> Inr party))"

section \<open>Example data\<close>

text \<open>
  A small database on which the functions are run: the parties as the \<open>loadparties\<close>
  command leaves them, two persons who share the filer_id 1234 and a contest (number 50)
  for the post of governor.
\<close>

definition example_organizations :: "organization list" where
  "example_organizations =
     [\<lparr>org_id = 10, org_name = ''DEMOCRATIC'', org_classification = ''party'', org_parent = None\<rparr>,
      \<lparr>org_id = 11, org_name = ''UNKNOWN'', org_classification = ''party'', org_parent = None\<rparr>,
      \<lparr>org_id = 12, org_name = ''NO PARTY PREFERENCE'', org_classification = ''party'',
        org_parent = None\<rparr>,
      \<lparr>org_id = 13, org_name = ''California State Executive Branch'',
        org_classification = ''executive'', org_parent = None\<rparr>]"

definition example_db :: database where
  "example_db =
     \<lparr>persons =
        [\<lparr>pers_id = 1, pers_name = ''JANE DOE'', pers_sort_name = ''DOE, JANE''\<rparr>,
         \<lparr>pers_id = 2, pers_name = ''JANE DOE'', pers_sort_name = ''DOE, JANE''\<rparr>,
         \<lparr>pers_id = 3, pers_name = ''JOHN ROE'', pers_sort_name = ''ROE, JOHN''\<rparr>],
      person_identifiers =
        [\<lparr>pi_person = 1, pi_scheme = ''calaccess_filer_id'', pi_identifier = ''1234''\<rparr>,
         \<lparr>pi_person = 2, pi_scheme = ''calaccess_filer_id'', pi_identifier = ''1234''\<rparr>,
         \<lparr>pi_person = 3, pi_scheme = ''calaccess_filer_id'', pi_identifier = ''5678''\<rparr>],
      organizations = example_organizations,
      organization_identifiers =
        [\<lparr>oi_organization = 10, oi_scheme = ''calaccess_party_code'', oi_identifier = ''16002''\<rparr>,
         \<lparr>oi_organization = 12, oi_scheme = ''calaccess_party_code'', oi_identifier = ''16012''\<rparr>],
      organization_names = [\<lparr>on_organization = 10, on_name = ''DEM''\<rparr>],
      divisions =
        [\<lparr>div_id = 20, div_subid1 = ''ca'', div_subtype2 = [], div_subid2 = []\<rparr>],
      posts =
        [\<lparr>post_id = 30, post_label = ''Governor'', post_role = ''Governor'', post_division = 20,
          post_organization = 13\<rparr>],
      contest_posts = [\<lparr>cp_contest = 50, cp_post = 30\<rparr>],
      candidacies =
        [\<lparr>cand_id = 40, cand_contest = 50, cand_person = 3, cand_post = 30,
          cand_candidate_name = ''ROE, JOHN'', cand_registration_status = Some ''filed''\<rparr>],
      next_id = 100\<rparr>"

text \<open>The same database with the second person under another name.\<close>

definition example_db_names_differ :: database where
  "example_db_names_differ =
     example_db\<lparr>persons :=
        [\<lparr>pers_id = 1, pers_name = ''JANE DOE'', pers_sort_name = ''DOE, JANE''\<rparr>,
         \<lparr>pers_id = 2, pers_name = ''JANE Q DOE'', pers_sort_name = ''DOE, JANE Q''\<rparr>,
         \<lparr>pers_id = 3, pers_name = ''JOHN ROE'', pers_sort_name = ''ROE, JOHN''\<rparr>]\<rparr>"

text \<open>
  The same database when the contest has a second post that comes first in its order; the
  candidacy of John Roe stays on the post of governor.
\<close>

definition example_db_two_posts :: database where
  "example_db_two_posts =
     example_db\<lparr>posts := posts example_db @
        [\<lparr>post_id = 31, post_label = ''Lieutenant Governor'', post_role = ''Lieutenant Governor'',
          post_division = 20, post_organization = 13\<rparr>],
      contest_posts := [\<lparr>cp_contest = 50, cp_post = 31\<rparr>, \<lparr>cp_contest = 50, cp_post = 30\<rparr>]\<rparr>"

definition example_rows :: "nat filer_to_filer_type_cd list" where
  "example_rows =
     [\<lparr>ft_filer_id = 1234, ft_effect_dt = 5, ft_party_cd = 16002\<rparr>,
      \<lparr>ft_filer_id = 1234, ft_effect_dt = 20, ft_party_cd = 16009\<rparr>,
      \<lparr>ft_filer_id = 5678, ft_effect_dt = 7, ft_party_cd = 16007\<rparr>,
      \<lparr>ft_filer_id = 9999, ft_effect_dt = 7, ft_party_cd = 16099\<rparr>]"

definition example_command :: command where
  "example_command = \<lparr>state_division = 20, executive_branch = 13, sos = 14\<rparr>"

section \<open>Properties\<close>

subsection \<open>The correction table lookup\<close>

lemma filter_length_one_member:
  assumes "length (filter P xs) = 1" and "e \<in> set xs" and "P e"
  shows "filter P xs = [e]"
proof -
  from assms(1) obtain y where y: "filter P xs = [y]"
    by (cases "filter P xs") auto
  from assms(2,3) have "e \<in> set (filter P xs)" by simp
  with y show ?thesis by simp
qed

text \<open>
  C5. For every (candidate_name, year, election_type, office),
  \<open>lookup_candidate_party_correction\<close> returns None when no entry of the corrections table
  matches all four fields, returns the party of the unique matching entry when exactly one
  entry matches, and raises an exception when more than one entry matches.
\<close>

theorem lookup_candidate_party_correction_spec:
  "((\<forall>e \<in> set corrections. \<not> correction_matches n y t office e) \<longrightarrow>
      lookup_candidate_party_correction corrections n y t office = Inr None) \<and>
   (\<forall>e. length (filter (correction_matches n y t office) corrections) = 1 \<and>
        e \<in> set corrections \<and> correction_matches n y t office e \<longrightarrow>
      lookup_candidate_party_correction corrections n y t office = Inr (Some (correction_party e))) \<and>
   (length (filter (correction_matches n y t office) corrections) > 1 \<longrightarrow>
      (\<exists>msg. lookup_candidate_party_correction corrections n y t office = Inl (Exception msg)))"
proof (intro conjI allI impI)
  assume "\<forall>e \<in> set corrections. \<not> correction_matches n y t office e"
  then have "filter (correction_matches n y t office) corrections = []"
    by (simp add: filter_empty_conv)
  then show "lookup_candidate_party_correction corrections n y t office = Inr None"
    by (simp add: lookup_candidate_party_correction_def)
next
  fix e
  assume h: "length (filter (correction_matches n y t office) corrections) = 1 \<and>
        e \<in> set corrections \<and> correction_matches n y t office e"
  then have "filter (correction_matches n y t office) corrections = [e]"
    by (simp add: filter_length_one_member)
  then show "lookup_candidate_party_correction corrections n y t office
      = Inr (Some (correction_party e))"
    by (simp add: lookup_candidate_party_correction_def)
next
  assume "length (filter (correction_matches n y t office) corrections) > 1"
  then show "\<exists>msg. lookup_candidate_party_correction corrections n y t office
      = Inl (Exception msg)"
    by (simp add: lookup_candidate_party_correction_def)
qed

theorem lookup_candidate_party_correction_witness:
  "lookup_candidate_party_correction
      [(''WINSTON, ALMA MARIE'', 2014, ''PRIMARY'', ''GOVERNOR'', ''REPUBLICAN''),
       (''DOE, JANE'', 2016, ''GENERAL'', ''ASSEMBLY 01'', ''DEMOCRATIC'')]
      ''WINSTON, ALMA MARIE'' 2014 ''PRIMARY'' ''GOVERNOR'' = Inr (Some ''REPUBLICAN'') \<and>
   lookup_candidate_party_correction
      [(''WINSTON, ALMA MARIE'', 2014, ''PRIMARY'', ''GOVERNOR'', ''REPUBLICAN'')]
      ''DOE, JANE'' 2014 ''PRIMARY'' ''GOVERNOR'' = Inr None \<and>
   (\<exists>msg. lookup_candidate_party_correction
      [(''DOE, JANE'', 2016, ''GENERAL'', ''ASSEMBLY 01'', ''DEMOCRATIC''),
       (''DOE, JANE'', 2016, ''GENERAL'', ''ASSEMBLY 01'', ''GREEN'')]
      ''DOE, JANE'' 2016 ''GENERAL'' ''ASSEMBLY 01'' = Inl (Exception msg))"
proof (intro conjI)
  show "lookup_candidate_party_correction
      [(''WINSTON, ALMA MARIE'', 2014, ''PRIMARY'', ''GOVERNOR'', ''REPUBLICAN''),
       (''DOE, JANE'', 2016, ''GENERAL'', ''ASSEMBLY 01'', ''DEMOCRATIC'')]
      ''WINSTON, ALMA MARIE'' 2014 ''PRIMARY'' ''GOVERNOR'' = Inr (Some ''REPUBLICAN'')"
    using lookup_candidate_party_correction_spec
      [of "[(''WINSTON, ALMA MARIE'', 2014, ''PRIMARY'', ''GOVERNOR'', ''REPUBLICAN''),
            (''DOE, JANE'', 2016, ''GENERAL'', ''ASSEMBLY 01'', ''DEMOCRATIC'')]"
          "''WINSTON, ALMA MARIE''" 2014 "''PRIMARY''" "''GOVERNOR''"]
    by (simp add: correction_matches_def correction_party_def)
  show "lookup_candidate_party_correction
      [(''WINSTON, ALMA MARIE'', 2014, ''PRIMARY'', ''GOVERNOR'', ''REPUBLICAN'')]
      ''DOE, JANE'' 2014 ''PRIMARY'' ''GOVERNOR'' = Inr None"
    using lookup_candidate_party_correction_spec
      [of "[(''WINSTON, ALMA MARIE'', 2014, ''PRIMARY'', ''GOVERNOR'', ''REPUBLICAN'')]"
          "''DOE, JANE''" 2014 "''PRIMARY''" "''GOVERNOR''"]
    by (simp add: correction_matches_def)
  show "\<exists>msg. lookup_candidate_party_correction
      [(''DOE, JANE'', 2016, ''GENERAL'', ''ASSEMBLY 01'', ''DEMOCRATIC''),
       (''DOE, JANE'', 2016, ''GENERAL'', ''ASSEMBLY 01'', ''GREEN'')]
      ''DOE, JANE'' 2016 ''GENERAL'' ''ASSEMBLY 01'' = Inl (Exception msg)"
    using lookup_candidate_party_correction_spec
      [of "[(''DOE, JANE'', 2016, ''GENERAL'', ''ASSEMBLY 01'', ''DEMOCRATIC''),
            (''DOE, JANE'', 2016, ''GENERAL'', ''ASSEMBLY 01'', ''GREEN'')]"
          "''DOE, JANE''" 2016 "''GENERAL''" "''ASSEMBLY 01''"]
    by (simp add: correction_matches_def)
qed

subsection \<open>Office names\<close>

lemma digit_not_type_char: "is_digit c \<Longrightarrow> \<not> office_type_char c"
  by (auto simp: is_digit_def office_type_char_def ascii_digits_def ascii_uppercase_def)

lemma newline_not_type_char: "\<not> office_type_char (CHR 0x0A)"
  by (simp add: office_type_char_def ascii_uppercase_def)

lemma py_int_two_digits:
  "is_digit d1 \<Longrightarrow> is_digit d2 \<Longrightarrow>
   py_int (PStr [d1, d2]) = Inr (int (10 * digit_value d1 + digit_value d2))"
  by (simp add: py_int_def)

lemma re_match_office_district:
  "re_match_office u = Some (t, Some ds) \<Longrightarrow>
     \<exists>d1 d2. ds = [d1, d2] \<and> is_digit d1 \<and> is_digit d2"
  unfolding re_match_office_def Let_def
  apply (auto split: list.splits if_splits)
   apply metis+
  done

lemma parse_office_name_None:
  "re_match_office (str_upper s) = None \<Longrightarrow>
   parse_office_name s = Inr [''type'' \<mapsto> PNone, ''district'' \<mapsto> PNone]"
  by (simp add: parse_office_name_def)

lemma parse_office_name_no_district:
  "re_match_office (str_upper s) = Some (t, None) \<Longrightarrow>
   parse_office_name s = Inr [''type'' \<mapsto> PStr (str_strip t), ''district'' \<mapsto> PNone]"
  by (auto simp: parse_office_name_def groupdict_def dict_get_def py_strip_val_def py_int_def)

lemma parse_office_name_district:
  assumes "re_match_office (str_upper s) = Some (t, Some [d1, d2])"
  shows "parse_office_name s =
     Inr [''type'' \<mapsto> PStr (str_strip t),
          ''district'' \<mapsto> PInt (int (10 * digit_value d1 + digit_value d2))]"
proof -
  from re_match_office_district [OF assms] have d: "is_digit d1" "is_digit d2" by auto
  show ?thesis
    using assms py_int_two_digits [OF d]
    by (auto simp: parse_office_name_def groupdict_def dict_get_def py_strip_val_def)
qed

text \<open>
  C9, as the code has it. \<open>parse_office_name\<close> never raises: for every string it returns
  a dictionary with exactly the keys \<open>type\<close> and \<open>district\<close>. The pattern is matched
  against the upper-cased string: when that does not match, both values are None; a match
  without digits gives the stripped type and the district None; a match with digits gives
  the stripped type and the two digits as an integer.
\<close>

theorem parse_office_name_total:
  "\<exists>d. parse_office_name s = Inr d \<and> dom d = {''type'', ''district''} \<and>
     (case re_match_office (str_upper s) of
        None \<Rightarrow> d ''type'' = Some PNone \<and> d ''district'' = Some PNone
      | Some (t, None) \<Rightarrow> d ''type'' = Some (PStr (str_strip t)) \<and> d ''district'' = Some PNone
      | Some (t, Some ds) \<Rightarrow>
          d ''type'' = Some (PStr (str_strip t)) \<and> length ds = 2 \<and> list_all is_digit ds \<and>
          d ''district'' = Some (PInt (int (10 * digit_value (ds ! 0) + digit_value (ds ! 1)))))"
proof (cases "re_match_office (str_upper s)")
  case None
  then show ?thesis by (auto simp: parse_office_name_None)
next
  case (Some m)
  obtain t d where m: "m = (t, d)" by (cases m)
  show ?thesis
  proof (cases d)
    case None
    with Some m show ?thesis by (auto simp: parse_office_name_no_district)
  next
    case (Some ds)
    with \<open>re_match_office (str_upper s) = Some m\<close> m
    have r: "re_match_office (str_upper s) = Some (t, Some ds)" by simp
    from re_match_office_district [OF r] obtain d1 d2
      where ds: "ds = [d1, d2]" "is_digit d1" "is_digit d2" by auto
    from r ds show ?thesis by (auto simp: parse_office_name_district)
  qed
qed

text \<open>
  What \<open>re_match_office\<close> accepts, in the words of the regular expression
  \<^verbatim>\<open>^(?P<type>[A-Z ]+)(?P<district>\d{2})?$\<close>: a non-empty run of upper-case letters
  and spaces, then nothing or two digits, then the end of the string or a final newline.
\<close>

lemma takeWhile_dropWhile_split:
  assumes "\<And>x. x \<in> set t \<Longrightarrow> P x" and "r = [] \<or> \<not> P (hd r)"
  shows "takeWhile P (t @ r) = t" and "dropWhile P (t @ r) = r"
  using assms by (cases r; simp add: takeWhile_append2 dropWhile_append2)+

lemma re_match_office_sound:
  assumes "re_match_office u = Some (t, d)"
  shows "t \<noteq> [] \<and> list_all office_type_char t \<and>
     (case d of
        None \<Rightarrow> u = t \<or> u = t @ [CHR 0x0A]
      | Some ds \<Rightarrow> length ds = 2 \<and> list_all is_digit ds \<and> (u = t @ ds \<or> u = t @ ds @ [CHR 0x0A]))"
proof -
  define r where "r = dropWhile office_type_char u"
  from assms have t: "t = takeWhile office_type_char u" "t \<noteq> []"
    by (auto simp: re_match_office_def Let_def split: list.splits if_splits)
  have u: "u = t @ r" by (simp add: t r_def)
  have all: "list_all office_type_char t"
    by (auto simp: t list_all_iff dest: set_takeWhileD)
  from assms have "case d of
        None \<Rightarrow> r = [] \<or> r = [CHR 0x0A]
      | Some ds \<Rightarrow> length ds = 2 \<and> list_all is_digit ds \<and> (r = ds \<or> r = ds @ [CHR 0x0A])"
    unfolding re_match_office_def Let_def r_def [symmetric]
    by (cases r rule: list.exhaust) (auto split: list.splits if_splits)
  with u t(2) all show ?thesis
    by (cases d) auto
qed

lemma re_match_office_complete:
  assumes "t \<noteq> []" and "list_all office_type_char t"
    and "case d of
        None \<Rightarrow> u = t \<or> u = t @ [CHR 0x0A]
      | Some ds \<Rightarrow> length ds = 2 \<and> list_all is_digit ds \<and> (u = t @ ds \<or> u = t @ ds @ [CHR 0x0A])"
  shows "re_match_office u = Some (t, d)"
proof -
  from assms(2) have P: "\<And>x. x \<in> set t \<Longrightarrow> office_type_char x"
    by (simp add: list_all_iff)
  obtain r where u: "u = t @ r"
    and r: "case d of None \<Rightarrow> r = [] \<or> r = [CHR 0x0A]
      | Some ds \<Rightarrow> (\<exists>d1 d2. ds = [d1, d2] \<and> is_digit d1 \<and> is_digit d2) \<and>
                   (r = ds \<or> r = ds @ [CHR 0x0A])"
  proof (cases d)
    case None
    with assms(3) that [of "[]"] that [of "[CHR 0x0A]"] show ?thesis by auto
  next
    case (Some ds)
    with assms(3) obtain d1 d2 where "ds = [d1, d2]"
      by (cases ds rule: list.exhaust; cases "tl ds") auto
    with Some assms(3) that [of ds] that [of "ds @ [CHR 0x0A]"] show ?thesis by auto
  qed
  from r have hd: "r = [] \<or> \<not> office_type_char (hd r)"
    by (cases d) (auto simp: newline_not_type_char digit_not_type_char)
  from takeWhile_dropWhile_split [of t office_type_char r] P hd
  have td: "takeWhile office_type_char u = t" "dropWhile office_type_char u = r"
    by (simp_all add: u)
  from r show ?thesis
    unfolding re_match_office_def Let_def td using assms(1)
    by (cases d) auto
qed

text \<open>
  C9 as stated speaks of the string itself matching the pattern. The lower-case string
  \<open>governor\<close> does not match it, and yet its type is parsed.
\<close>

theorem parse_office_name_lowercase_counterexample:
  "re_match_office ''governor'' = None \<and>
   (\<exists>d. parse_office_name ''governor'' = Inr d \<and> d ''type'' = Some (PStr ''GOVERNOR'') \<and>
         d ''district'' = Some PNone)"
  by (simp add: re_match_office_def parse_office_name_def str_upper_def char_upper_def
      ascii_lowercase_def ascii_uppercase_def office_type_char_def groupdict_def dict_get_def
      py_strip_val_def py_int_def str_strip_def is_space_def whitespace_def)

theorem parse_office_name_witness:
  "\<exists>d. parse_office_name ''Assembly 07'' = Inr d \<and> dom d = {''type'', ''district''} \<and>
         d ''type'' = Some (PStr ''ASSEMBLY'') \<and>
         d ''district'' = Some (PInt 7)"
  using parse_office_name_total [of "''Assembly 07''"]
  by (simp add: re_match_office_def str_upper_def char_upper_def
      ascii_lowercase_def ascii_uppercase_def office_type_char_def
      str_strip_def is_space_def whitespace_def is_digit_def ascii_digits_def digit_value_def)

subsection \<open>Regular election dates\<close>

lemma weekday_range: "0 \<le> weekday dt \<and> weekday dt < 7"
  by (simp add: weekday_def)

lemma weekday_shift:
  "weekday \<lparr>date_year = y, date_month = m, date_day = d\<rparr> =
     (weekday \<lparr>date_year = y, date_month = m, date_day = 1\<rparr> + (d - 1)) mod 7"
proof -
  define a where "a = days_before_year y + days_before_month y m"
  have "((a + 1 + 6) mod 7 + (d - 1)) mod 7 = ((a + 1 + 6) + (d - 1)) mod 7"
    by (rule mod_add_left_eq)
  also have "(a + 1 + 6) + (d - 1) = a + d + 6"
    by simp
  finally have "(a + d + 6) mod 7 = ((a + 1 + 6) mod 7 + (d - 1)) mod 7"
    by (rule sym)
  then show ?thesis
    unfolding weekday_def toordinal_def ymd2ord_def a_def by simp
qed

lemma first_monday_eq:
  "first_monday y m =
     Some ((7 - weekday \<lparr>date_year = y, date_month = m, date_day = 1\<rparr>) mod 7 + 1)"
proof -
  let ?w = "weekday \<lparr>date_year = y, date_month = m, date_day = 1\<rparr>"
  have "0 \<le> ?w \<and> ?w < 7" by (rule weekday_range)
  then consider "?w = 0" | "?w = 1" | "?w = 2" | "?w = 3" | "?w = 4" | "?w = 5" | "?w = 6"
    by linarith
  then show ?thesis
    by cases (simp_all add: first_monday_def weekday_shift [of y m 2] weekday_shift [of y m 3]
        weekday_shift [of y m 4] weekday_shift [of y m 5] weekday_shift [of y m 6]
        weekday_shift [of y m 7])
qed

lemma election_day_range:
  "2 \<le> (7 - weekday dt) mod 7 + 2 \<and> (7 - weekday dt) mod 7 + 2 \<le> 8"
proof -
  have "0 \<le> (7 - weekday dt) mod 7 \<and> (7 - weekday dt) mod 7 < 7" by simp
  then show ?thesis by linarith
qed

lemma election_date_in_month:
  assumes "year mod 2 = 0" and "1 \<le> year" and "year \<le> 9999" and "month = 6 \<or> month = 11"
  shows "new_date year month 1 = Inr \<lparr>date_year = year, date_month = month, date_day = 1\<rparr>"
    and "2 \<le> d \<and> d \<le> 8 \<Longrightarrow>
         new_date year month d = Inr \<lparr>date_year = year, date_month = month, date_day = d\<rparr>"
  using assms by (auto simp: new_date_def days_in_month_def month_lengths_def)

lemma regular_election_date_month:
  assumes "year mod 2 = 0" and "1 \<le> year" and "year \<le> 9999" and "month = 6 \<or> month = 11"
  shows "\<exists>d. (let first_weekday = weekday \<lparr>date_year = year, date_month = month, date_day = 1\<rparr>;
                  day_or_month = (7 - first_weekday) mod 7 + 2
              in new_date year month day_or_month) = Inr d \<and>
             first_tuesday_after_first_monday year month = Some d \<and> weekday d = 1"
proof -
  let ?first = "\<lparr>date_year = year, date_month = month, date_day = 1\<rparr>"
  let ?day = "(7 - weekday ?first) mod 7 + 2"
  let ?d = "\<lparr>date_year = year, date_month = month, date_day = ?day\<rparr>"
  have new: "new_date year month ?day = Inr ?d"
    using election_date_in_month(2) [OF assms] election_day_range [of ?first] by blast
  have spec: "first_tuesday_after_first_monday year month = Some ?d"
    by (simp add: first_tuesday_after_first_monday_def first_monday_eq)
  have shift: "weekday ?d = (weekday ?first + (?day - 1)) mod 7"
    by (rule weekday_shift)
  have "(w + (((7 - w) mod 7 + 2) - 1)) mod 7 = 1" for w :: int
    by presburger
  with shift have tue: "weekday ?d = 1" by simp
  from new spec tue show ?thesis by (simp add: Let_def)
qed

text \<open>
  C8, as the code has it. For every even year that a date can hold (1 to 9999),
  \<open>get_regular_election_date\<close> returns the first Tuesday after the first Monday of June
  when the election type is PRIMARY (in any case of the letters) and of November when it is
  GENERAL; it raises an exception for every odd year and for every other election type.
\<close>

theorem get_regular_election_date_spec:
  "(year mod 2 = 0 \<and> 1 \<le> year \<and> year \<le> 9999 \<and> str_upper election_type = ''PRIMARY'' \<longrightarrow>
      (\<exists>d. get_regular_election_date year election_type = Inr d \<and>
           first_tuesday_after_first_monday year 6 = Some d \<and> weekday d = 1)) \<and>
   (year mod 2 = 0 \<and> 1 \<le> year \<and> year \<le> 9999 \<and> str_upper election_type = ''GENERAL'' \<longrightarrow>
      (\<exists>d. get_regular_election_date year election_type = Inr d \<and>
           first_tuesday_after_first_monday year 11 = Some d \<and> weekday d = 1)) \<and>
   (year mod 2 \<noteq> 0 \<or>
      (str_upper election_type \<noteq> ''PRIMARY'' \<and> str_upper election_type \<noteq> ''GENERAL'') \<longrightarrow>
      (\<exists>msg. get_regular_election_date year election_type = Inl (Exception msg)))"
proof (intro conjI impI)
  assume h: "year mod 2 = 0 \<and> 1 \<le> year \<and> year \<le> 9999 \<and> str_upper election_type = ''PRIMARY''"
  then have n: "new_date year 6 1 = Inr \<lparr>date_year = year, date_month = 6, date_day = 1\<rparr>"
    using election_date_in_month(1) [of year 6] by simp
  from h regular_election_date_month [of year 6]
  show "\<exists>d. get_regular_election_date year election_type = Inr d \<and>
           first_tuesday_after_first_monday year 6 = Some d \<and> weekday d = 1"
    by (simp add: get_regular_election_date_def n)
next
  assume h: "year mod 2 = 0 \<and> 1 \<le> year \<and> year \<le> 9999 \<and> str_upper election_type = ''GENERAL''"
  then have n: "new_date year 11 1 = Inr \<lparr>date_year = year, date_month = 11, date_day = 1\<rparr>"
    using election_date_in_month(1) [of year 11] by simp
  from h regular_election_date_month [of year 11]
  show "\<exists>d. get_regular_election_date year election_type = Inr d \<and>
           first_tuesday_after_first_monday year 11 = Some d \<and> weekday d = 1"
    by (simp add: get_regular_election_date_def n)
next
  assume "year mod 2 \<noteq> 0 \<or>
      (str_upper election_type \<noteq> ''PRIMARY'' \<and> str_upper election_type \<noteq> ''GENERAL'')"
  then show "\<exists>msg. get_regular_election_date year election_type = Inl (Exception msg)"
    by (auto simp: get_regular_election_date_def)
qed



lemma str_upper_general: "str_upper ''general'' = ''GENERAL''"
  by (simp add: str_upper_def char_upper_def ascii_lowercase_def ascii_uppercase_def)

lemma str_upper_Primary: "str_upper ''Primary'' = ''PRIMARY''"
  by (simp add: str_upper_def char_upper_def ascii_lowercase_def ascii_uppercase_def)

theorem get_regular_election_date_witness:
  "(\<exists>d. get_regular_election_date 2016 ''general'' = Inr d \<and>
        first_tuesday_after_first_monday 2016 11 = Some d \<and> weekday d = 1) \<and>
   get_regular_election_date 2016 ''general''
     = Inr \<lparr>date_year = 2016, date_month = 11, date_day = 8\<rparr> \<and>
   (\<exists>d. get_regular_election_date 2018 ''Primary'' = Inr d \<and>
        first_tuesday_after_first_monday 2018 6 = Some d \<and> weekday d = 1) \<and>
   get_regular_election_date 2018 ''Primary''
     = Inr \<lparr>date_year = 2018, date_month = 6, date_day = 5\<rparr> \<and>
   (\<exists>msg. get_regular_election_date 2017 ''PRIMARY'' = Inl (Exception msg)) \<and>
   (\<exists>msg. get_regular_election_date 2016 ''RUNOFF'' = Inl (Exception msg))"
proof (intro conjI)
  show "\<exists>d. get_regular_election_date 2016 ''general'' = Inr d \<and>
        first_tuesday_after_first_monday 2016 11 = Some d \<and> weekday d = 1"
    using get_regular_election_date_spec [of 2016 "''general''"]
    by (simp add: str_upper_general)
  show "\<exists>d. get_regular_election_date 2018 ''Primary'' = Inr d \<and>
        first_tuesday_after_first_monday 2018 6 = Some d \<and> weekday d = 1"
    using get_regular_election_date_spec [of 2018 "''Primary''"]
    by (simp add: str_upper_Primary)
  show "get_regular_election_date 2016 ''general''
     = Inr \<lparr>date_year = 2016, date_month = 11, date_day = 8\<rparr>"
    by (simp add: get_regular_election_date_def str_upper_general new_date_def
        days_in_month_def month_lengths_def weekday_def toordinal_def ymd2ord_def
        days_before_year_def days_before_month_def is_leap_def)
  show "get_regular_election_date 2018 ''Primary''
     = Inr \<lparr>date_year = 2018, date_month = 6, date_day = 5\<rparr>"
    by (simp add: get_regular_election_date_def str_upper_Primary new_date_def
        days_in_month_def month_lengths_def weekday_def toordinal_def ymd2ord_def
        days_before_year_def days_before_month_def is_leap_def)
  show "\<exists>msg. get_regular_election_date 2017 ''PRIMARY'' = Inl (Exception msg)"
    using get_regular_election_date_spec [of 2017 "''PRIMARY''"] by simp
  show "\<exists>msg. get_regular_election_date 2016 ''RUNOFF'' = Inl (Exception msg)"
    using get_regular_election_date_spec [of 2016 "''RUNOFF''"]
    by (simp add: str_upper_def char_upper_def ascii_lowercase_def ascii_uppercase_def)
qed

text \<open>
  C8 as stated covers every even year. The year 0 is even, and no date holds it: the
  function raises \<open>ValueError\<close> instead of returning.
\<close>

theorem get_regular_election_date_year_zero_counterexample:
  "(0::int) mod 2 = 0 \<and> str_upper ''PRIMARY'' = ''PRIMARY'' \<and>
   get_regular_election_date 0 ''PRIMARY'' = Inl ValueError"
  by (simp add: get_regular_election_date_def new_date_def str_upper_def char_upper_def
      ascii_lowercase_def ascii_uppercase_def)

subsection \<open>Looking up a party\<close>

lemma concat_join_Nil:
  "concat (map (\<lambda>x. map (\<lambda>y. x) (filter (Q x) ys)) xs) = [] \<longleftrightarrow>
     (\<forall>x \<in> set xs. \<forall>y \<in> set ys. \<not> Q x y)"
  by (auto simp: filter_empty_conv)

lemma organizations_by_other_name_Nil:
  "organizations_by_other_name db name = [] \<longleftrightarrow>
     (\<forall>org \<in> set (organizations db). \<forall>n \<in> set (organization_names db).
        \<not> (on_organization n = org_id org \<and> on_name n = name))"
  unfolding organizations_by_other_name_def
  by (rule concat_join_Nil [where Q = "\<lambda>org n. on_organization n = org_id org \<and> on_name n = name"])

lemma organizations_by_identifier_Nil:
  "organizations_by_identifier db ident = [] \<longleftrightarrow>
     (\<forall>org \<in> set (organizations db). \<forall>i \<in> set (organization_identifiers db).
        \<not> (oi_organization i = org_id org \<and> oi_identifier i = ident))"
  unfolding organizations_by_identifier_def
  by (rule concat_join_Nil [where Q = "\<lambda>org i. oi_organization i = org_id org \<and> oi_identifier i = ident"])

lemma organizations_by_identifier_member:
  "party \<in> set (organizations_by_identifier db ident) \<longleftrightarrow>
     party \<in> set (organizations db) \<and>
     (\<exists>i \<in> set (organization_identifiers db). oi_organization i = org_id party \<and> oi_identifier i = ident)"
  by (auto simp: organizations_by_identifier_def)

lemma organizations_by_other_name_member:
  "party \<in> set (organizations_by_other_name db name) \<longleftrightarrow>
     party \<in> set (organizations db) \<and>
     (\<exists>n \<in> set (organization_names db). on_organization n = org_id party \<and> on_name n = name)"
  by (auto simp: organizations_by_other_name_def)

lemma party_by_name_Nil:
  "filter (\<lambda>org. org_name org = party) (parties db) = [] \<longleftrightarrow>
     (\<forall>org \<in> set (organizations db). \<not> (org_classification org = ''party'' \<and> org_name org = party))"
  by (auto simp: parties_def filter_empty_conv)

text \<open>
  C2. For every string \<open>party\<close>, \<open>lookup_party\<close> tries its lookups in sequence, on the
  database as it is once the parties are loaded: the organization classified as a party
  whose name is \<open>party\<close> is returned; when no party has that name, the organization with
  that alternate name is returned; and when neither lookup finds a match, the organization
  named UNKNOWN is returned.
\<close>

theorem lookup_party_spec:
  assumes "(if parties db = [] then loadparties db else Inr db) = Inr db'"
  shows "(filter (\<lambda>org. org_name org = party) (parties db') = [found] \<longrightarrow>
            lookup_party loadparties db party = Inr (found, db') \<and>
            found \<in> set (organizations db') \<and> org_classification found = ''party'' \<and>
            org_name found = party) \<and>
         ((\<forall>org \<in> set (organizations db').
              \<not> (org_classification org = ''party'' \<and> org_name org = party)) \<and>
          organizations_by_other_name db' party = [found] \<longrightarrow>
            lookup_party loadparties db party = Inr (found, db') \<and>
            found \<in> set (organizations db') \<and>
            (\<exists>n \<in> set (organization_names db'). on_organization n = org_id found \<and> on_name n = party)) \<and>
         ((\<forall>org \<in> set (organizations db').
              \<not> (org_classification org = ''party'' \<and> org_name org = party)) \<and>
          (\<forall>org \<in> set (organizations db'). \<forall>n \<in> set (organization_names db').
              \<not> (on_organization n = org_id org \<and> on_name n = party)) \<and>
          organizations_by_name db' ''UNKNOWN'' = [unknown] \<longrightarrow>
            lookup_party loadparties db party = Inr (unknown, db') \<and>
            unknown \<in> set (organizations db') \<and> org_name unknown = ''UNKNOWN'')"
proof (intro conjI impI)
  assume h: "filter (\<lambda>org. org_name org = party) (parties db') = [found]"
  with assms show "lookup_party loadparties db party = Inr (found, db')"
    by (simp add: lookup_party_def)
  from h have "found \<in> set (filter (\<lambda>org. org_name org = party) (parties db'))" by simp
  then show "found \<in> set (organizations db')" "org_classification found = ''party''"
    "org_name found = party"
    by (simp_all add: parties_def)
next
  assume h: "(\<forall>org \<in> set (organizations db').
              \<not> (org_classification org = ''party'' \<and> org_name org = party)) \<and>
          organizations_by_other_name db' party = [found]"
  then have "filter (\<lambda>org. org_name org = party) (parties db') = []"
    by (simp add: party_by_name_Nil)
  with assms h show "lookup_party loadparties db party = Inr (found, db')"
    by (simp add: lookup_party_def)
  from h have "found \<in> set (organizations_by_other_name db' party)" by simp
  then show "found \<in> set (organizations db')"
    "\<exists>n \<in> set (organization_names db'). on_organization n = org_id found \<and> on_name n = party"
    by (simp_all add: organizations_by_other_name_member)
next
  assume h: "(\<forall>org \<in> set (organizations db').
              \<not> (org_classification org = ''party'' \<and> org_name org = party)) \<and>
          (\<forall>org \<in> set (organizations db'). \<forall>n \<in> set (organization_names db').
              \<not> (on_organization n = org_id org \<and> on_name n = party)) \<and>
          organizations_by_name db' ''UNKNOWN'' = [unknown]"
  then have "filter (\<lambda>org. org_name org = party) (parties db') = []"
    and "organizations_by_other_name db' party = []"
    by (simp_all add: party_by_name_Nil organizations_by_other_name_Nil)
  with assms h show "lookup_party loadparties db party = Inr (unknown, db')"
    by (simp add: lookup_party_def)
  from h have "unknown \<in> set (organizations_by_name db' ''UNKNOWN'')" by simp
  then show "unknown \<in> set (organizations db')" "org_name unknown = ''UNKNOWN''"
    by (simp_all add: organizations_by_name_def)
qed

lemmas example_defs = example_db_def example_organizations_def parties_def
  organizations_by_other_name_def organizations_by_name_def organizations_by_identifier_def

theorem lookup_party_witness:
  "lookup_party Inr example_db ''DEMOCRATIC'' = Inr (example_organizations ! 0, example_db) \<and>
   lookup_party Inr example_db ''DEM'' = Inr (example_organizations ! 0, example_db) \<and>
   lookup_party Inr example_db ''WHIG'' = Inr (example_organizations ! 1, example_db) \<and>
   org_name (example_organizations ! 1) = ''UNKNOWN''"
proof -
  have l: "(if parties example_db = [] then Inr example_db else Inr example_db) = Inr example_db"
    by simp
  have "lookup_party Inr example_db ''DEMOCRATIC'' = Inr (example_organizations ! 0, example_db)"
    using lookup_party_spec [where db = example_db and loadparties = Inr and db' = example_db
        and party = "''DEMOCRATIC''" and found = "example_organizations ! 0"] l
    by (simp add: example_defs)
  moreover
  have "lookup_party Inr example_db ''DEM'' = Inr (example_organizations ! 0, example_db)"
    using lookup_party_spec [where db = example_db and loadparties = Inr and db' = example_db
        and party = "''DEM''" and found = "example_organizations ! 0"] l
    by (simp add: example_defs)
  moreover
  have "lookup_party Inr example_db ''WHIG'' = Inr (example_organizations ! 1, example_db) \<and>
    org_name (example_organizations ! 1) = ''UNKNOWN''"
    using lookup_party_spec [where db = example_db and loadparties = Inr and db' = example_db
        and party = "''WHIG''" and unknown = "example_organizations ! 1"] l
    by (simp add: example_defs)
  ultimately show ?thesis by simp
qed


subsection \<open>The party of a filer\<close>

lemma foldl_latest:
  "foldl (\<lambda>best x. if ft_effect_dt best < ft_effect_dt x then x else best) r rs \<in> set (r # rs) \<and>
   (\<forall>x \<in> set (r # rs).
      ft_effect_dt x \<le> ft_effect_dt
        (foldl (\<lambda>best x. if ft_effect_dt best < ft_effect_dt x then x else best) r rs))"
  for r :: "('d::linorder) filer_to_filer_type_cd"
proof (induction rs arbitrary: r)
  case Nil
  show ?case by simp
next
  case (Cons a rs)
  show ?case
  proof (cases "ft_effect_dt r < ft_effect_dt a")
    case True
    with Cons [of a] show ?thesis by (auto intro: order_trans less_imp_le)
  next
    case False
    with Cons [of r] show ?thesis by (auto intro: order_trans)
  qed
qed

lemma latest_is_latest:
  fixes r :: "('d::linorder) filer_to_filer_type_cd"
  assumes "latest rs = Inr r"
  shows "r \<in> set rs \<and> (\<forall>x \<in> set rs. ft_effect_dt x \<le> ft_effect_dt r)"
proof (cases rs)
  case Nil
  with assms show ?thesis by simp
next
  case (Cons a as)
  with assms foldl_latest [of a as] show ?thesis by auto
qed

lemma latest_Nil: "latest rs = Inl e \<longleftrightarrow> rs = [] \<and> e = DoesNotExist"
  by (cases rs) auto

lemma effective_rows_Nil:
  "effective_rows rows filer_id election_date = [] \<longleftrightarrow>
     (\<forall>r \<in> set rows. \<not> (ft_filer_id r = filer_id \<and> ft_effect_dt r \<le> election_date))"
  by (simp add: effective_rows_def filter_empty_conv)

text \<open>
  C3, as the code has it. \<open>get_party_for_filer_id\<close> returns the UNKNOWN organization
  when no row of the filer is effective on or before the election date, and when the party
  code of the latest such row, after 16007 and 16009 are replaced by 16012, matches no
  organization identifier; otherwise it returns the organization whose identifier equals
  that replaced party code.
\<close>

theorem get_party_for_filer_id_spec:
  assumes "organizations_by_name db ''UNKNOWN'' = [unknown]"
  shows "((\<forall>r \<in> set rows. \<not> (ft_filer_id r = filer_id \<and> ft_effect_dt r \<le> election_date)) \<longrightarrow>
            get_party_for_filer_id rows db filer_id election_date = Inr unknown) \<and>
         (latest (effective_rows rows filer_id election_date) = Inr row \<and>
          (\<forall>org \<in> set (organizations db). \<forall>i \<in> set (organization_identifiers db).
              \<not> (oi_organization i = org_id org \<and>
                 oi_identifier i = py_str (PInt (recode_party_cd (ft_party_cd row))))) \<longrightarrow>
            get_party_for_filer_id rows db filer_id election_date = Inr unknown) \<and>
         (latest (effective_rows rows filer_id election_date) = Inr row \<and>
          organizations_by_identifier db (py_str (PInt (recode_party_cd (ft_party_cd row)))) = [party] \<longrightarrow>
            get_party_for_filer_id rows db filer_id election_date = Inr party \<and>
            party \<in> set (organizations db) \<and>
            (\<exists>i \<in> set (organization_identifiers db). oi_organization i = org_id party \<and>
                 oi_identifier i = py_str (PInt (recode_party_cd (ft_party_cd row)))))"
proof (intro conjI impI)
  assume "\<forall>r \<in> set rows. \<not> (ft_filer_id r = filer_id \<and> ft_effect_dt r \<le> election_date)"
  then have "effective_rows rows filer_id election_date = []"
    by (simp add: effective_rows_Nil)
  with assms show "get_party_for_filer_id rows db filer_id election_date = Inr unknown"
    by (simp add: get_party_for_filer_id_def)
next
  assume h: "latest (effective_rows rows filer_id election_date) = Inr row \<and>
          (\<forall>org \<in> set (organizations db). \<forall>i \<in> set (organization_identifiers db).
              \<not> (oi_organization i = org_id org \<and>
                 oi_identifier i = py_str (PInt (recode_party_cd (ft_party_cd row)))))"
  then have "organizations_by_identifier db (py_str (PInt (recode_party_cd (ft_party_cd row)))) = []"
    by (simp add: organizations_by_identifier_Nil)
  with assms h show "get_party_for_filer_id rows db filer_id election_date = Inr unknown"
    by (simp add: get_party_for_filer_id_def)
next
  assume h: "latest (effective_rows rows filer_id election_date) = Inr row \<and>
          organizations_by_identifier db (py_str (PInt (recode_party_cd (ft_party_cd row)))) = [party]"
  then show "get_party_for_filer_id rows db filer_id election_date = Inr party"
    by (simp add: get_party_for_filer_id_def)
  from h have "party \<in> set (organizations_by_identifier db
      (py_str (PInt (recode_party_cd (ft_party_cd row)))))" by simp
  then show "party \<in> set (organizations db)"
    "\<exists>i \<in> set (organization_identifiers db). oi_organization i = org_id party \<and>
         oi_identifier i = py_str (PInt (recode_party_cd (ft_party_cd row)))"
    by (simp_all add: organizations_by_identifier_member)
qed

lemma py_str_16012: "py_str (PInt 16012) = ''16012''"
  by (simp add: py_str_def str_nat.simps ascii_digits_def)

lemma py_str_16002: "py_str (PInt 16002) = ''16002''"
  by (simp add: py_str_def str_nat.simps ascii_digits_def)

lemma py_str_16099: "py_str (PInt 16099) = ''16099''"
  by (simp add: py_str_def str_nat.simps ascii_digits_def)

lemma py_str_16007: "py_str (PInt 16007) = ''16007''"
  by (simp add: py_str_def str_nat.simps ascii_digits_def)

theorem get_party_for_filer_id_witness:
  "get_party_for_filer_id example_rows example_db 1234 3 = Inr (example_organizations ! 1) \<and>
   get_party_for_filer_id example_rows example_db 1234 10 = Inr (example_organizations ! 0) \<and>
   get_party_for_filer_id example_rows example_db 1234 30 = Inr (example_organizations ! 2) \<and>
   get_party_for_filer_id example_rows example_db 9999 10 = Inr (example_organizations ! 1)"
proof -
  have u: "organizations_by_name example_db ''UNKNOWN'' = [example_organizations ! 1]"
    by (simp add: example_defs)
  have "get_party_for_filer_id example_rows example_db 1234 3 = Inr (example_organizations ! 1)"
    using get_party_for_filer_id_spec [OF u, of example_rows 1234 3]
    by (simp add: example_rows_def)
  moreover
  have "get_party_for_filer_id example_rows example_db 1234 10 = Inr (example_organizations ! 0)"
    using get_party_for_filer_id_spec [OF u, of example_rows 1234 10 "example_rows ! 0"
        "example_organizations ! 0"]
    by (simp add: example_rows_def effective_rows_def recode_party_cd_def py_str_16002 example_defs)
  moreover
  have "get_party_for_filer_id example_rows example_db 1234 30 = Inr (example_organizations ! 2)"
    using get_party_for_filer_id_spec [OF u, of example_rows 1234 30 "example_rows ! 1"
        "example_organizations ! 2"]
    by (simp add: example_rows_def effective_rows_def recode_party_cd_def py_str_16012 example_defs)
  moreover
  have "get_party_for_filer_id example_rows example_db 9999 10 = Inr (example_organizations ! 1)"
    using get_party_for_filer_id_spec [OF u, of example_rows 9999 10 "example_rows ! 3"]
    by (simp add: example_rows_def effective_rows_def recode_party_cd_def py_str_16099 example_defs)
  ultimately show ?thesis by simp
qed

text \<open>
  C3 as stated takes the party code of the row as it is. The latest row of filer 5678 has
  the party code 16007, which matches no organization identifier; the organization returned
  is not UNKNOWN but the one with the identifier 16012.
\<close>

theorem get_party_for_filer_id_recode_counterexample:
  "latest (effective_rows example_rows 5678 10) = Inr (example_rows ! 2) \<and>
   ft_party_cd (example_rows ! 2) = 16007 \<and>
   organizations_by_identifier example_db (py_str (PInt 16007)) = [] \<and>
   organizations_by_name example_db ''UNKNOWN'' = [example_organizations ! 1] \<and>
   get_party_for_filer_id example_rows example_db 5678 10 = Inr (example_organizations ! 2) \<and>
   example_organizations ! 2 \<noteq> example_organizations ! 1"
  by (simp add: example_rows_def effective_rows_def get_party_for_filer_id_def recode_party_cd_def
      py_str_16012 py_str_16007 example_defs)

subsection \<open>Posts\<close>

lemma organization_get_or_create_cases:
  "organization_get_or_create db name c p = Inr (org, created, db1) \<Longrightarrow> posts db1 = posts db"
  by (auto simp: organization_get_or_create_def Let_def split: sum.splits error.splits)

lemma prepare_raw_post_label:
  assumes "prepare_raw_post self db office_name = Inr (raw, db1)"
  shows "raw_label raw = replace_Of_of (str_title office_name) \<and> posts db1 = posts db"
proof -
  from assms obtain parsed where p: "parse_office_name office_name = Inr parsed"
    by (auto simp: prepare_raw_post_def split: sum.splits)
  from assms show ?thesis
    unfolding prepare_raw_post_def p Let_def
    by (auto split: sum.splits if_splits dest: organization_get_or_create_cases)
qed

text \<open>
  C7, as the code has it. When \<open>get_or_create_post\<close> is given an office name for which
  no matching post exists (and the division and organization of the office are found), no
  UNKNOWN post stands in: with \<open>get_only\<close> it returns no post at all (None) and
  created = False; without it a new post with the label, role, division and organization
  of the office is created and returned with created = True.
\<close>

theorem get_or_create_post_no_match:
  assumes "prepare_raw_post self db office_name = Inr (raw, db1)"
    and "\<forall>p \<in> set (posts db1). \<not> post_matches raw p"
  shows "get_or_create_post self db office_name True = Inr (None, False, db1) \<and>
         (\<exists>p. get_or_create_post self db office_name False =
                 Inr (Some p, True, db1\<lparr>posts := posts db1 @ [p], next_id := Suc (next_id db1)\<rparr>) \<and>
              post_matches raw p \<and> post_label p = replace_Of_of (str_title office_name))"
proof -
  from assms(2) have none: "filter (post_matches raw) (posts db1) = []"
    by (simp add: filter_empty_conv)
  from prepare_raw_post_label [OF assms(1)]
  have label: "raw_label raw = replace_Of_of (str_title office_name)" by simp
  show ?thesis
    using assms(1) none label
    by (simp add: get_or_create_post_def Let_def post_matches_def)
qed

lemma parse_Treasurer:
  "parse_office_name ''Treasurer'' = Inr [''type'' \<mapsto> PStr ''TREASURER'', ''district'' \<mapsto> PNone]"
proof -
  have "re_match_office (str_upper ''Treasurer'') = Some (''TREASURER'', None)"
    by (simp add: re_match_office_def str_upper_def char_upper_def
      ascii_lowercase_def ascii_uppercase_def office_type_char_def)
  from parse_office_name_no_district [OF this] show ?thesis
    by (simp add: str_strip_def is_space_def whitespace_def)
qed

lemma title_Treasurer: "replace_Of_of (str_title ''Treasurer'') = ''Treasurer''"
  by (simp add: str_title_def char_upper_def char_lower_def is_cased_def
      ascii_lowercase_def ascii_uppercase_def)

lemma prepare_Treasurer:
  "prepare_raw_post example_command example_db ''Treasurer'' =
     Inr (\<lparr>raw_label = ''Treasurer'', raw_division = 20, raw_organization = 13,
           raw_role = ''Treasurer''\<rparr>, example_db)"
  by (simp add: prepare_raw_post_def parse_Treasurer title_Treasurer example_command_def Let_def)

theorem get_or_create_post_witness:
  "get_or_create_post example_command example_db ''Treasurer'' True = Inr (None, False, example_db) \<and>
   (\<exists>p. get_or_create_post example_command example_db ''Treasurer'' False =
           Inr (Some p, True,
                example_db\<lparr>posts := posts example_db @ [p], next_id := Suc (next_id example_db)\<rparr>) \<and>
         post_matches \<lparr>raw_label = ''Treasurer'', raw_division = 20, raw_organization = 13,
           raw_role = ''Treasurer''\<rparr> p \<and> post_label p = ''Treasurer'')"
  using get_or_create_post_no_match [OF prepare_Treasurer]
  by (simp add: example_db_def post_matches_def title_Treasurer)

text \<open>
  C7 as stated promises an UNKNOWN post. No post of the example database is labelled
  Treasurer or UNKNOWN; the lookup of Treasurer returns None.
\<close>

theorem get_or_create_post_unknown_counterexample:
  "filter (\<lambda>p. post_label p = ''Treasurer'' \<or> post_label p = ''UNKNOWN'') (posts example_db) = [] \<and>
   get_or_create_post example_command example_db ''Treasurer'' True = Inr (None, False, example_db)"
  unfolding get_or_create_post_def prepare_Treasurer
  by (simp add: example_db_def post_matches_def)

subsection \<open>Merging persons\<close>

lemma carries_filer_id_iff:
  "carries_filer_id db filer_id p \<longleftrightarrow>
     (\<exists>i \<in> set (person_identifiers db). pi_person i = pers_id p \<and>
        pi_scheme i = ''calaccess_filer_id'' \<and> pi_identifier i = filer_id)"
  by (auto simp: carries_filer_id_def has_filer_id_def list_ex_iff)

lemma persons_by_filer_id_member:
  "p \<in> set (persons_by_filer_id db filer_id) \<longleftrightarrow>
     p \<in> set (persons db) \<and> carries_filer_id db filer_id p"
  by (auto simp: persons_by_filer_id_def carries_filer_id_def list_ex_iff)

lemma filer_id_confined_start:
  "persons_by_filer_id db filer_id = s # rest \<Longrightarrow> filer_id_confined db filer_id (pers_id s) rest"
  unfolding filer_id_confined_def
  by (metis persons_by_filer_id_member set_ConsD imageI)

lemma merge_persons_ids:
  assumes "merge s p db = Inr db'"
  shows "map pers_id (persons db') = filter (\<lambda>n. n \<noteq> pers_id p) (map pers_id (persons db))"
proof -
  have "map pers_id (filter (\<lambda>q. pers_id q \<noteq> pers_id p)
           (map (\<lambda>q. if pers_id q = pers_id s then s else q) ps))
        = filter (\<lambda>n. n \<noteq> pers_id p) (map pers_id ps)" for ps
    by (induction ps) auto
  with assms show ?thesis
    by (auto simp: merge_def split: if_splits)
qed

lemma merge_confined:
  assumes m: "merge s p db = Inr db'"
    and c: "filer_id_confined db filer_id (pers_id s) (p # ps)"
  shows "filer_id_confined db' filer_id (pers_id s) ps"
  unfolding filer_id_confined_def
proof (intro ballI impI)
  fix q
  assume q: "q \<in> set (persons db')" and cq: "carries_filer_id db' filer_id q"
  from m have ne: "pers_id s \<noteq> pers_id p" by (auto simp: merge_def split: if_splits)
  from q have "pers_id q \<in> set (map pers_id (persons db'))" by simp
  then have qid: "pers_id q \<noteq> pers_id p" "pers_id q \<in> pers_id ` set (persons db)"
    by (auto simp: merge_persons_ids [OF m])
  then obtain q0 where q0: "q0 \<in> set (persons db)" "pers_id q0 = pers_id q" by auto
  from cq obtain i' where i': "i' \<in> set (person_identifiers db')" "pi_person i' = pers_id q"
      "pi_scheme i' = ''calaccess_filer_id''" "pi_identifier i' = filer_id"
    by (auto simp: carries_filer_id_iff)
  from m i'(1) i'(3) obtain i where i: "i \<in> set (person_identifiers db)"
      "i' = (if pi_person i = pers_id p then i\<lparr>pi_person := pers_id s\<rparr> else i)"
    by (auto simp: merge_def split: if_splits)
  show "pers_id q = pers_id s \<or> pers_id q \<in> pers_id ` set ps"
  proof (cases "pi_person i = pers_id p")
    case True
    with i i'(2) show ?thesis by simp
  next
    case False
    with i i' have "carries_filer_id db filer_id q0"
      by (auto simp: carries_filer_id_iff q0)
    with c q0(1) have "pers_id q0 = pers_id s \<or> pers_id q0 \<in> pers_id ` set (p # ps)"
      unfolding filer_id_confined_def by blast
    with q0 qid show ?thesis by auto
  qed
qed

lemma merge_loop_confined:
  assumes "\<forall>p \<in> set ps. pers_name p = pers_name s \<and> pers_sort_name p = pers_sort_name s"
    and "filer_id_confined db filer_id (pers_id s) ps"
  shows "\<exists>db'. merge_loop dbg s ps db = Inr db' \<and> filer_id_confined db' filer_id (pers_id s) [] \<and>
           (distinct (map pers_id (persons db)) \<longrightarrow> distinct (map pers_id (persons db')))"
  using assms
proof (induction ps arbitrary: db)
  case Nil
  then show ?case by simp
next
  case (Cons p ps)
  from Cons.prems(1) have names: "pers_name p = pers_name s" "pers_sort_name p = pers_sort_name s"
    and rest: "\<forall>p \<in> set ps. pers_name p = pers_name s \<and> pers_sort_name p = pers_sort_name s"
    by simp_all
  show ?case
  proof (cases "pers_id s = pers_id p")
    case True
    with Cons.prems(2) have "filer_id_confined db filer_id (pers_id s) ps"
      by (auto simp: filer_id_confined_def)
    from Cons.IH [OF rest this] True show ?thesis by simp
  next
    case False
    then obtain db1 where m: "merge s p db = Inr db1"
      by (simp add: merge_def)
    from merge_confined [OF m Cons.prems(2)]
    have c1: "filer_id_confined db1 filer_id (pers_id s) ps" .
    from Cons.IH [OF rest c1] obtain db' where l: "merge_loop dbg s ps db1 = Inr db'"
      "filer_id_confined db' filer_id (pers_id s) []"
      "distinct (map pers_id (persons db1)) \<longrightarrow> distinct (map pers_id (persons db'))"
      by blast
    have "distinct (map pers_id (persons db)) \<longrightarrow> distinct (map pers_id (persons db1))"
      by (simp add: merge_persons_ids [OF m])
    with l False names m show ?thesis by simp
  qed
qed


lemma delete_later_filer_ids_subset:
  "set (delete_later_filer_ids pid seen rows) \<subseteq> set rows"
  by (induction rows arbitrary: seen) auto

lemma distinct_same_key_length:
  assumes "distinct (map f ys)" and "\<forall>y \<in> set ys. f y = c"
  shows "length ys \<le> 1"
proof (cases ys)
  case Nil
  then show ?thesis by simp
next
  case (Cons y zs)
  with assms have "zs = []" by (cases zs) auto
  with Cons show ?thesis by simp
qed

lemma confined_carriers:
  assumes "filer_id_confined db1 filer_id sid []"
    and "set (person_identifiers db2) \<subseteq> set (person_identifiers db1)"
    and "persons db2 = persons db1"
    and "distinct (map pers_id (persons db1))"
  shows "length (carriers db2 filer_id) \<le> 1 \<and> (\<forall>p \<in> set (carriers db2 filer_id). pers_id p = sid)"
proof -
  have all: "\<forall>p \<in> set (carriers db2 filer_id). pers_id p = sid"
  proof
    fix p assume "p \<in> set (carriers db2 filer_id)"
    then have p: "p \<in> set (persons db1)" "carries_filer_id db2 filer_id p"
      by (simp_all add: carriers_def assms(3))
    from p(2) assms(2) have "carries_filer_id db1 filer_id p"
      by (auto simp: carries_filer_id_iff)
    with assms(1) p(1) show "pers_id p = sid"
      by (auto simp: filer_id_confined_def)
  qed
  from assms(4) have "distinct (map pers_id (carriers db2 filer_id))"
    by (simp add: carriers_def assms(3) distinct_map_filter)
  from distinct_same_key_length [OF this all] all show ?thesis by simp
qed

text \<open>
  The merging path of the loop. When the persons that share the filer_id all have the name
  and the sort name of the first of them (and person ids are unique, as a primary key is),
  \<open>merge_persons\<close> returns that first person, and afterwards at most one person record
  carries the filer_id: no one but the survivor.
\<close>

lemma merge_persons_same_names:
  assumes "persons_by_filer_id db filer_id = survivor # rest"
    and "\<forall>p \<in> set rest. pers_name p = pers_name survivor \<and> pers_sort_name p = pers_sort_name survivor"
    and "distinct (map pers_id (persons db))"
  shows "\<exists>db'. merge_persons dbg db filer_id = Inr (survivor, db') \<and>
           length (carriers db' filer_id) \<le> 1 \<and>
           (\<forall>p \<in> set (carriers db' filer_id). pers_id p = pers_id survivor)"
proof -
  from merge_loop_confined [OF assms(2) filer_id_confined_start [OF assms(1)], of dbg] assms(3)
  obtain db1 where l: "merge_loop dbg survivor rest db = Inr db1"
    and c: "filer_id_confined db1 filer_id (pers_id survivor) []"
    and d: "distinct (map pers_id (persons db1))"
    by blast
  let ?db2 = "db1\<lparr>person_identifiers :=
      delete_later_filer_ids (pers_id survivor) False (person_identifiers db1)\<rparr>"
  have a: "length (carriers db1 filer_id) \<le> 1 \<and>
      (\<forall>p \<in> set (carriers db1 filer_id). pers_id p = pers_id survivor)"
    using confined_carriers [OF c _ _ d, of db1] by simp
  have b: "length (carriers ?db2 filer_id) \<le> 1 \<and>
      (\<forall>p \<in> set (carriers ?db2 filer_id). pers_id p = pers_id survivor)"
    using confined_carriers [OF c _ _ d, of ?db2]
    by (simp add: delete_later_filer_ids_subset)
  show ?thesis
  proof (cases "length (filter (\<lambda>i. pi_person i = pers_id survivor) (person_identifiers db1)) > 1")
    case True
    with assms(1) l have "merge_persons dbg db filer_id = Inr (survivor, ?db2)"
      by (simp add: merge_persons_def)
    with b show ?thesis by blast
  next
    case False
    with assms(1) l have "merge_persons dbg db filer_id = Inr (survivor, db1)"
      by (simp add: merge_persons_def)
    with a show ?thesis by blast
  qed
qed


lemma example_persons_by_filer_id:
  "persons_by_filer_id example_db ''1234'' =
     [\<lparr>pers_id = 1, pers_name = ''JANE DOE'', pers_sort_name = ''DOE, JANE''\<rparr>,
      \<lparr>pers_id = 2, pers_name = ''JANE DOE'', pers_sort_name = ''DOE, JANE''\<rparr>]"
  by (simp add: persons_by_filer_id_def has_filer_id_def example_db_def)

lemma merge_persons_same_names_example:
  "\<exists>db'. merge_persons Continue example_db ''1234'' =
           Inr (\<lparr>pers_id = 1, pers_name = ''JANE DOE'', pers_sort_name = ''DOE, JANE''\<rparr>, db') \<and>
         length (carriers db' ''1234'') \<le> 1"
proof -
  have names: "\<forall>p \<in> set [\<lparr>pers_id = 2, pers_name = ''JANE DOE'', pers_sort_name = ''DOE, JANE''\<rparr>].
      pers_name p = pers_name \<lparr>pers_id = 1, pers_name = ''JANE DOE'', pers_sort_name = ''DOE, JANE''\<rparr> \<and>
      pers_sort_name p =
        pers_sort_name \<lparr>pers_id = 1, pers_name = ''JANE DOE'', pers_sort_name = ''DOE, JANE''\<rparr>"
    by simp
  have ids: "distinct (map pers_id (persons example_db))"
    by (simp add: example_db_def)
  from merge_persons_same_names [OF example_persons_by_filer_id names ids, of Continue]
  show ?thesis by blast
qed

text \<open>
  C1. After \<open>merge_persons\<close> returns, at most one person record carries the filer_id: every
  other person that shared it has been merged into the returned survivor. The code does not
  keep this when the names differ. Two persons with different names share 1234: the loop
  stops at its breakpoint instead of merging them. Quit there, the run ends in \<open>BdbQuit\<close>;
  continued, \<open>merge_persons\<close> returns the first person with the database as it was, where
  both persons are still records and both still carry 1234.
\<close>

theorem merge_persons_names_differ_unmerged:
  "persons_by_filer_id example_db_names_differ ''1234'' =
     [\<lparr>pers_id = 1, pers_name = ''JANE DOE'', pers_sort_name = ''DOE, JANE''\<rparr>,
      \<lparr>pers_id = 2, pers_name = ''JANE Q DOE'', pers_sort_name = ''DOE, JANE Q''\<rparr>] \<and>
   merge_persons Continue example_db_names_differ ''1234'' =
     Inr (\<lparr>pers_id = 1, pers_name = ''JANE DOE'', pers_sort_name = ''DOE, JANE''\<rparr>,
          example_db_names_differ) \<and>
   carriers example_db_names_differ ''1234'' =
     [\<lparr>pers_id = 1, pers_name = ''JANE DOE'', pers_sort_name = ''DOE, JANE''\<rparr>,
      \<lparr>pers_id = 2, pers_name = ''JANE Q DOE'', pers_sort_name = ''DOE, JANE Q''\<rparr>] \<and>
   merge_persons Quit example_db_names_differ ''1234'' = Inl BdbQuit"
proof -
  have p: "persons_by_filer_id example_db_names_differ ''1234'' =
     [\<lparr>pers_id = 1, pers_name = ''JANE DOE'', pers_sort_name = ''DOE, JANE''\<rparr>,
      \<lparr>pers_id = 2, pers_name = ''JANE Q DOE'', pers_sort_name = ''DOE, JANE Q''\<rparr>]"
    by (simp add: persons_by_filer_id_def has_filer_id_def example_db_names_differ_def example_db_def)
  have i: "length (filter (\<lambda>i. pi_person i = 1) (person_identifiers example_db_names_differ)) = 1"
    by (simp add: example_db_names_differ_def example_db_def)
  have m: "merge_persons Continue example_db_names_differ ''1234'' =
     Inr (\<lparr>pers_id = 1, pers_name = ''JANE DOE'', pers_sort_name = ''DOE, JANE''\<rparr>,
          example_db_names_differ)"
    using i by (simp add: merge_persons_def p set_trace_def)
  have q: "merge_persons Quit example_db_names_differ ''1234'' = Inl BdbQuit"
    by (simp add: merge_persons_def p set_trace_def)
  have c: "carriers example_db_names_differ ''1234'' =
     [\<lparr>pers_id = 1, pers_name = ''JANE DOE'', pers_sort_name = ''DOE, JANE''\<rparr>,
      \<lparr>pers_id = 2, pers_name = ''JANE Q DOE'', pers_sort_name = ''DOE, JANE Q''\<rparr>]"
    by (simp add: carriers_def carries_filer_id_def has_filer_id_def example_db_names_differ_def
        example_db_def)
  from p m c q show ?thesis by simp
qed

subsection \<open>Getting or creating a person\<close>

lemma carriers_member:
  "q \<in> set (carriers db filer_id) \<longleftrightarrow> q \<in> set (persons_by_filer_id db filer_id)"
  by (simp add: carriers_def persons_by_filer_id_member)

lemma carriers_Nil: "carriers db filer_id = [] \<longleftrightarrow> persons_by_filer_id db filer_id = []"
proof -
  have "set (carriers db filer_id) = set (persons_by_filer_id db filer_id)"
    by (auto simp: carriers_member)
  then have "set (carriers db filer_id) = {} \<longleftrightarrow> set (persons_by_filer_id db filer_id) = {}"
    by simp
  then show ?thesis by (simp only: set_empty)
qed

lemma merge_loop_same_person:
  "\<forall>q \<in> set ps. q = s \<Longrightarrow> merge_loop dbg s ps db = Inr db"
  by (induction ps) simp_all

lemma merge_persons_single:
  assumes "persons_by_filer_id db filer_id = p # rest" and "\<forall>q \<in> set rest. q = p"
  shows "\<exists>db'. merge_persons dbg db filer_id = Inr (p, db')"
proof -
  from assms(2) have "merge_loop dbg p rest db = Inr db"
    by (simp add: merge_loop_same_person)
  with assms(1) show ?thesis
    by (simp add: merge_persons_def)
qed

lemma lookup_person_single:
  assumes "f \<noteq> []" and "carriers db f = [p]"
  shows "\<exists>db'. lookup_person dbg db (Some f) = Inr (Some p, db')"
proof -
  have all: "\<forall>q \<in> set (persons_by_filer_id db f). q = p"
    using assms(2) carriers_member [of _ db f] by simp
  have "persons_by_filer_id db f \<noteq> []"
    using assms(2) carriers_Nil [of db f] by simp
  then obtain x rest where xs: "persons_by_filer_id db f = x # rest"
    by (cases "persons_by_filer_id db f") auto
  with all have x: "x = p" and rest: "\<forall>q \<in> set rest. q = p" by simp_all
  show ?thesis
  proof (cases rest)
    case Nil
    with xs x assms(1) show ?thesis by (simp add: lookup_person_def)
  next
    case (Cons y ys)
    from merge_persons_single [OF xs [unfolded x] rest, of dbg]
    obtain db' where "merge_persons dbg db f = Inr (p, db')" by blast
    with xs x Cons assms(1) show ?thesis by (simp add: lookup_person_def)
  qed
qed

lemma get_one_DoesNotExist: "get_one xs = Inl DoesNotExist \<longleftrightarrow> xs = []"
  by (cases xs rule: get_one.cases) auto

lemma lookup_person_None:
  assumes "lookup_person dbg db (Some f) = Inr (None, db1)" and "f \<noteq> []"
  shows "persons_by_filer_id db f = []"
proof (cases "get_one (persons_by_filer_id db f)")
  case (Inr p)
  with assms show ?thesis by (simp add: lookup_person_def)
next
  case (Inl e)
  show ?thesis
  proof (cases "e = DoesNotExist")
    case True
    with Inl show ?thesis by (simp add: get_one_DoesNotExist)
  next
    case False
    with Inl assms show ?thesis
      by (cases e; cases "merge_persons dbg db f") (auto simp: lookup_person_def)
  qed
qed

text \<open>
  C4. For every name and non-empty filer_id, \<open>get_or_create_person\<close> first looks the
  person up by the filer_id: when exactly one person carries it, that person is returned
  with created = False, whatever the name is; a new person (created = True) is made only
  when no person carries it, and the new person carries that filer_id.
\<close>

theorem get_or_create_person_by_filer_id:
  assumes "filer_id \<noteq> []"
  shows "(carriers db filer_id = [p] \<longrightarrow>
            (\<exists>db'. \<forall>name. get_or_create_person dbg db name (Some filer_id) = Inr (p, False, db'))) \<and>
         (carriers db filer_id = [] \<longrightarrow>
            (\<exists>new db'. get_or_create_person dbg db name (Some filer_id) = Inr (new, True, db') \<and>
               pers_sort_name new = name \<and>
               persons db' = persons db @ [new] \<and>
               person_identifiers db' = person_identifiers db @
                 [\<lparr>pi_person = pers_id new, pi_scheme = ''calaccess_filer_id'',
                   pi_identifier = filer_id\<rparr>] \<and>
               carries_filer_id db' filer_id new)) \<and>
         (\<forall>q db'. get_or_create_person dbg db name (Some filer_id) = Inr (q, True, db') \<longrightarrow>
            carriers db filer_id = [])"
proof (intro conjI impI allI)
  assume "carriers db filer_id = [p]"
  from lookup_person_single [OF assms this, of dbg]
  obtain db' where "lookup_person dbg db (Some filer_id) = Inr (Some p, db')" by blast
  then have "\<forall>name. get_or_create_person dbg db name (Some filer_id) = Inr (p, False, db')"
    by (simp add: get_or_create_person_def)
  then show "\<exists>db'. \<forall>name. get_or_create_person dbg db name (Some filer_id) = Inr (p, False, db')"
    by blast
next
  assume "carriers db filer_id = []"
  then have "persons_by_filer_id db filer_id = []" by (simp add: carriers_Nil)
  with assms have l: "lookup_person dbg db (Some filer_id) = Inr (None, db)"
    by (simp add: lookup_person_def)
  show "\<exists>new db'. get_or_create_person dbg db name (Some filer_id) = Inr (new, True, db') \<and>
               pers_sort_name new = name \<and>
               persons db' = persons db @ [new] \<and>
               person_identifiers db' = person_identifiers db @
                 [\<lparr>pi_person = pers_id new, pi_scheme = ''calaccess_filer_id'',
                   pi_identifier = filer_id\<rparr>] \<and>
               carries_filer_id db' filer_id new"
    using assms
    by (simp add: get_or_create_person_def l create_person_def Let_def carries_filer_id_def
        has_filer_id_def)
next
  fix q db'
  assume "get_or_create_person dbg db name (Some filer_id) = Inr (q, True, db')"
  then obtain db1 where "lookup_person dbg db (Some filer_id) = Inr (None, db1)"
    by (cases "lookup_person dbg db (Some filer_id)")
       (auto simp: get_or_create_person_def split: prod.splits option.splits)
  from lookup_person_None [OF this assms] show "carriers db filer_id = []"
    by (simp add: carriers_Nil)
qed


theorem get_or_create_person_witness:
  "(\<exists>db'. \<forall>name. get_or_create_person Continue example_db name (Some ''5678'') =
      Inr (\<lparr>pers_id = 3, pers_name = ''JOHN ROE'', pers_sort_name = ''ROE, JOHN''\<rparr>, False, db')) \<and>
   (\<exists>new db'. get_or_create_person Continue example_db ''POE, ANN'' (Some ''4321'') =
      Inr (new, True, db') \<and> pers_sort_name new = ''POE, ANN'' \<and>
      carries_filer_id db' ''4321'' new)"
proof -
  have one: "carriers example_db ''5678'' =
      [\<lparr>pers_id = 3, pers_name = ''JOHN ROE'', pers_sort_name = ''ROE, JOHN''\<rparr>]"
    by (simp add: carriers_def carries_filer_id_def has_filer_id_def example_db_def)
  have none: "carriers example_db ''4321'' = []"
    by (simp add: carriers_def carries_filer_id_def has_filer_id_def example_db_def)
  have a: "\<exists>db'. \<forall>name. get_or_create_person Continue example_db name (Some ''5678'') =
      Inr (\<lparr>pers_id = 3, pers_name = ''JOHN ROE'', pers_sort_name = ''ROE, JOHN''\<rparr>, False, db')"
    using get_or_create_person_by_filer_id [of "''5678''" example_db
        "\<lparr>pers_id = 3, pers_name = ''JOHN ROE'', pers_sort_name = ''ROE, JOHN''\<rparr>" Continue]
      one by simp
  have b: "\<exists>new db'. get_or_create_person Continue example_db ''POE, ANN'' (Some ''4321'') =
      Inr (new, True, db') \<and> pers_sort_name new = ''POE, ANN'' \<and>
      carries_filer_id db' ''4321'' new"
    using get_or_create_person_by_filer_id [of "''4321''" example_db _ Continue "''POE, ANN''"]
      none by auto
  from a b show ?thesis by simp
qed

subsection \<open>Candidacies\<close>

lemma get_one_in: "get_one xs = Inr x \<Longrightarrow> x \<in> set xs"
  by (cases xs rule: get_one.cases) auto

lemma get_or_create_person_None:
  "get_or_create_person dbg db name None =
     Inr (\<lparr>pers_id = next_id db, pers_name = str_strip (str_join '' '' (rev (str_split CHR '','' name))),
           pers_sort_name = name\<rparr>, True,
          db\<lparr>persons := persons db @
               [\<lparr>pers_id = next_id db,
                 pers_name = str_strip (str_join '' '' (rev (str_split CHR '','' name))),
                 pers_sort_name = name\<rparr>],
             next_id := Suc (next_id db)\<rparr>)"
  by (simp add: get_or_create_person_def lookup_person_def create_person_def Let_def)

lemma find_or_create_by_name:
  assumes "\<not> truthy filer_id" and "first_post db contest_obj = Inr post"
  shows "find_or_create_candidacy dbg db contest_obj person_name filer_id =
     (case candidacies_by_sort_name db contest_obj post person_name of
        [] \<Rightarrow>
          (let new = \<lparr>pers_id = next_id db,
                      pers_name = str_strip (str_join '' '' (rev (str_split CHR '','' person_name))),
                      pers_sort_name = person_name\<rparr>;
               c = \<lparr>cand_id = Suc (next_id db), cand_contest = contest_obj, cand_person = next_id db,
                     cand_post = post, cand_candidate_name = person_name,
                     cand_registration_status = None\<rparr>
           in Inr (c, True, db\<lparr>persons := persons db @ [new],
                                candidacies := candidacies db @ [c],
                                next_id := Suc (Suc (next_id db))\<rparr>))
      | [c] \<Rightarrow> Inr (c, False, db)
      | c # d # rest \<Rightarrow> (case set_trace dbg of Inl e \<Rightarrow> Inl e | Inr u \<Rightarrow> Inl UnboundLocalError))"
proof (cases "candidacies_by_sort_name db contest_obj post person_name" rule: get_one.cases)
  case 1
  have fp: "first_post (db\<lparr>persons := ps, next_id := n\<rparr>) contest_obj = Inr post" for ps n
    using assms(2) by (simp add: first_post_def)
  from 1 assms show ?thesis
    by (simp add: find_or_create_candidacy_def get_or_create_person_None fp create_candidacy_def
        Let_def)
next
  case (2 x)
  with assms show ?thesis by (simp add: find_or_create_candidacy_def)
next
  case (3 x y zs)
  with assms show ?thesis by (simp add: find_or_create_candidacy_def)
qed


lemma merge_candidacy_ids:
  "merge s p db = Inr db' \<Longrightarrow> map cand_id (candidacies db') = map cand_id (candidacies db)"
  by (auto simp: merge_def split: if_splits)

lemma merge_loop_candidacy_ids:
  "merge_loop dbg s ps db = Inr db' \<Longrightarrow>
     map cand_id (candidacies db') = map cand_id (candidacies db)"
proof (induction ps arbitrary: db)
  case Nil
  then show ?case by simp
next
  case (Cons p ps)
  show ?case
  proof (cases "pers_id s = pers_id p")
    case True
    with Cons show ?thesis by simp
  next
    case differ: False
    show ?thesis
    proof (cases "pers_name s \<noteq> pers_name p \<or> pers_sort_name s \<noteq> pers_sort_name p")
      case True
      with differ Cons.prems have "merge_loop dbg s ps db = Inr db'"
        by (cases dbg) (simp_all add: set_trace_def)
      then show ?thesis by (rule Cons.IH)
    next
      case False
      with differ obtain db1 where m: "merge s p db = Inr db1"
        by (simp add: merge_def)
      with differ False Cons.prems have "merge_loop dbg s ps db1 = Inr db'" by simp
      from Cons.IH [OF this] merge_candidacy_ids [OF m] show ?thesis by simp
    qed
  qed
qed

lemma merge_persons_candidacy_ids:
  assumes "merge_persons dbg db filer_id = Inr (s, db')"
  shows "map cand_id (candidacies db') = map cand_id (candidacies db)"
proof (cases "persons_by_filer_id db filer_id")
  case Nil
  with assms show ?thesis by (simp add: merge_persons_def)
next
  case (Cons x rest)
  show ?thesis
  proof (cases "merge_loop dbg x rest db")
    case (Inl e)
    with assms Cons show ?thesis by (simp add: merge_persons_def)
  next
    case (Inr db1)
    from merge_loop_candidacy_ids [OF Inr]
    have "map cand_id (candidacies db1) = map cand_id (candidacies db)" .
    with assms Cons Inr show ?thesis
      by (auto simp: merge_persons_def split: if_splits)
  qed
qed

lemma lookup_person_candidacy_ids:
  assumes "lookup_person dbg db filer_id = Inr (r, db')"
  shows "map cand_id (candidacies db') = map cand_id (candidacies db)"
proof (cases filer_id)
  case None
  with assms show ?thesis by (simp add: lookup_person_def)
next
  case (Some f)
  show ?thesis
  proof (cases "f \<noteq> []")
    case False
    with assms Some show ?thesis by (simp add: lookup_person_def)
  next
    case True
    show ?thesis
    proof (cases "get_one (persons_by_filer_id db f)")
      case (Inr p)
      with assms Some True show ?thesis by (simp add: lookup_person_def)
    next
      case (Inl e)
      show ?thesis
      proof (cases "e = MultipleObjectsReturned")
        case multiple: True
        show ?thesis
        proof (cases "merge_persons dbg db f")
          case (Inl e')
          with assms Some True \<open>get_one (persons_by_filer_id db f) = Inl e\<close> multiple
          show ?thesis by (simp add: lookup_person_def)
        next
          case (Inr q)
          obtain s db1 where q: "q = (s, db1)" by (cases q)
          with Inr have m: "merge_persons dbg db f = Inr (s, db1)" by simp
          with assms Some True \<open>get_one (persons_by_filer_id db f) = Inl e\<close> multiple
          have "db' = db1" by (simp add: lookup_person_def)
          with merge_persons_candidacy_ids [OF m] show ?thesis by simp
        qed
      next
        case False
        with assms Some True Inl show ?thesis
          by (cases e) (simp_all add: lookup_person_def)
      qed
    qed
  qed
qed

lemma get_or_create_person_candidacy_ids:
  assumes "get_or_create_person dbg db name filer_id = Inr (p, created, db')"
  shows "map cand_id (candidacies db') = map cand_id (candidacies db)"
proof (cases "lookup_person dbg db filer_id")
  case (Inl e)
  with assms show ?thesis by (simp add: get_or_create_person_def)
next
  case (Inr r)
  obtain found db1 where r: "r = (found, db1)" by (cases r)
  with Inr have l: "lookup_person dbg db filer_id = Inr (found, db1)" by simp
  have c: "candidacies (snd (create_person db1 name filer_id)) = candidacies db1"
    by (simp add: create_person_def Let_def split: option.splits)
  from assms l have "candidacies db' = candidacies db1"
    using c by (cases found; cases "create_person db1 name filer_id")
      (auto simp: get_or_create_person_def)
  with lookup_person_candidacy_ids [OF l] show ?thesis by simp
qed


lemma find_or_create_candidacy_rows:
  assumes "find_or_create_candidacy dbg db contest_obj person_name filer_id = Inr (c0, created, db1)"
  shows "c0 \<in> set (candidacies db1) \<and>
         map cand_id (candidacies db1) =
           map cand_id (candidacies db) @ (if created then [cand_id c0] else [])"
proof (cases "truthy filer_id")
  case t: True
  show ?thesis
  proof (cases "get_or_create_person dbg db person_name filer_id")
    case (Inl e)
    with assms t show ?thesis by (simp add: find_or_create_candidacy_def)
  next
    case (Inr r)
    obtain person pc dbp where r: "r = (person, pc, dbp)" by (cases r)
    with Inr have g: "get_or_create_person dbg db person_name filer_id = Inr (person, pc, dbp)"
      by simp
    note ids = get_or_create_person_candidacy_ids [OF g]
    show ?thesis
    proof (cases "first_post dbp contest_obj")
      case (Inl e)
      with assms t g show ?thesis by (simp add: find_or_create_candidacy_def)
    next
      case post: (Inr post)
      show ?thesis
      proof (cases "get_one (candidacies_by_person dbp contest_obj (pers_id person) post person_name)")
        case (Inr x)
        with assms t g post have "c0 = x" "db1 = dbp" "created = False"
          by (simp_all add: find_or_create_candidacy_def)
        with get_one_in [OF Inr] ids show ?thesis by (simp add: candidacies_by_person_def)
      next
        case (Inl e)
        show ?thesis
        proof (cases "e = DoesNotExist")
          case True
          with Inl assms t g post
          have "create_candidacy dbp contest_obj (pers_id person) post person_name = (c0, db1)"
            and "created = True"
            by (simp_all add: find_or_create_candidacy_def split: prod.splits)
          with ids show ?thesis by (auto simp: create_candidacy_def Let_def)
        next
          case False
          with Inl assms t g post show ?thesis
            by (cases e) (simp_all add: find_or_create_candidacy_def)
        qed
      qed
    qed
  qed
next
  case f: False
  show ?thesis
  proof (cases "first_post db contest_obj")
    case (Inl e)
    with assms f show ?thesis by (simp add: find_or_create_candidacy_def)
  next
    case (Inr post)
    show ?thesis
    proof (cases "candidacies_by_sort_name db contest_obj post person_name" rule: get_one.cases)
      case 1
      with assms show ?thesis
        by (auto simp: find_or_create_by_name [OF f Inr] Let_def)
    next
      case (2 x)
      then have "x \<in> set (candidacies_by_sort_name db contest_obj post person_name)" by simp
      then have "x \<in> set (candidacies db)" by (simp add: candidacies_by_sort_name_def)
      with 2 assms show ?thesis
        by (auto simp: find_or_create_by_name [OF f Inr])
    next
      case (3 x y zs)
      with assms show ?thesis
        by (cases dbg) (simp_all add: find_or_create_by_name [OF f Inr] set_trace_def)
    qed
  qed
qed

lemma overwrite_ids:
  "map cand_id (map (\<lambda>r. if cand_id r = cand_id c0 \<and> P then c0\<lparr>cand_registration_status := rs\<rparr> else r) rows)
     = map cand_id rows"
  by (induction rows) auto

lemma overwrite_member:
  "c0 \<in> set rows \<Longrightarrow>
   c0\<lparr>cand_registration_status := rs\<rparr>
     \<in> set (map (\<lambda>r. if cand_id r = cand_id c0 \<and> cand_registration_status c0 \<noteq> rs
                     then c0\<lparr>cand_registration_status := rs\<rparr> else r) rows)"
  by (cases "cand_registration_status c0 = rs") force+

text \<open>
  C10. On every successful return of \<open>get_or_create_candidacy\<close> the registration status
  of the returned candidacy is the \<open>registration_status\<close> argument, for a candidacy that
  was matched as for one that was created. The status is saved: the table of candidacies
  has the rows it had, in their order, and the created one; the returned candidacy is the
  matched or created row with the status set; when the status differed, every row with the
  id of that candidacy is overwritten with the returned one, so none keeps the old status,
  and no other row and no other table changes.
\<close>

theorem get_or_create_candidacy_registration_status:
  assumes "get_or_create_candidacy dbg db contest_obj person_name registration_status filer_id
             = Inr (c, created, db')"
  shows "cand_registration_status c = registration_status \<and> c \<in> set (candidacies db') \<and>
         map cand_id (candidacies db') =
           map cand_id (candidacies db) @ (if created then [cand_id c] else []) \<and>
         (\<exists>c0 db1.
            find_or_create_candidacy dbg db contest_obj person_name filer_id = Inr (c0, created, db1) \<and>
            c0 \<in> set (candidacies db1) \<and>
            c = c0\<lparr>cand_registration_status := registration_status\<rparr> \<and>
            db' = db1\<lparr>candidacies :=
                    map (\<lambda>r. if cand_id r = cand_id c0 \<and>
                                cand_registration_status c0 \<noteq> registration_status
                             then c else r)
                        (candidacies db1)\<rparr> \<and>
            (cand_registration_status c0 \<noteq> registration_status \<longrightarrow>
               (\<forall>r \<in> set (candidacies db'). cand_id r = cand_id c0 \<longrightarrow> r = c)))"
proof (cases "find_or_create_candidacy dbg db contest_obj person_name filer_id")
  case (Inl e)
  with assms show ?thesis by (simp add: get_or_create_candidacy_def)
next
  case (Inr r)
  obtain c0 created0 db1 where r: "r = (c0, created0, db1)" by (cases r)
  with Inr have f0: "find_or_create_candidacy dbg db contest_obj person_name filer_id
      = Inr (c0, created0, db1)" by simp
  let ?c = "c0\<lparr>cand_registration_status := registration_status\<rparr>"
  let ?rows = "map (\<lambda>r. if cand_id r = cand_id c0 \<and>
                            cand_registration_status c0 \<noteq> registration_status
                         then ?c else r) (candidacies db1)"
  from assms f0 have cr: "created0 = created"
    by (auto simp: get_or_create_candidacy_def Let_def split: if_splits)
  from assms f0 have c: "c = ?c"
    by (auto simp: get_or_create_candidacy_def Let_def split: if_splits)
  from assms f0 have db': "db' = db1\<lparr>candidacies := ?rows\<rparr>"
    by (auto simp: get_or_create_candidacy_def Let_def save_candidacy_def split: if_splits)
  from find_or_create_candidacy_rows [OF f0] cr
  have m: "c0 \<in> set (candidacies db1)"
    and ids: "map cand_id (candidacies db1) =
      map cand_id (candidacies db) @ (if created then [cand_id c0] else [])"
    by simp_all
  have rows_ids: "map cand_id ?rows = map cand_id (candidacies db1)"
    by (rule overwrite_ids)
  have mem: "?c \<in> set ?rows"
    using m by (rule overwrite_member)
  have over: "cand_registration_status c0 \<noteq> registration_status \<longrightarrow>
      (\<forall>r \<in> set ?rows. cand_id r = cand_id c0 \<longrightarrow> r = ?c)"
    by auto
  have 1: "cand_registration_status c = registration_status" by (simp add: c)
  have 2: "c \<in> set (candidacies db')" using mem by (simp add: c db')
  have 3: "map cand_id (candidacies db') =
           map cand_id (candidacies db) @ (if created then [cand_id c] else [])"
    using rows_ids ids by (simp add: c db')
  have 4: "\<exists>c0 db1.
            find_or_create_candidacy dbg db contest_obj person_name filer_id = Inr (c0, created, db1) \<and>
            c0 \<in> set (candidacies db1) \<and>
            c = c0\<lparr>cand_registration_status := registration_status\<rparr> \<and>
            db' = db1\<lparr>candidacies :=
                    map (\<lambda>r. if cand_id r = cand_id c0 \<and>
                                cand_registration_status c0 \<noteq> registration_status
                             then c else r)
                        (candidacies db1)\<rparr> \<and>
            (cand_registration_status c0 \<noteq> registration_status \<longrightarrow>
               (\<forall>r \<in> set (candidacies db'). cand_id r = cand_id c0 \<longrightarrow> r = c))"
  proof (intro exI conjI)
    show "find_or_create_candidacy dbg db contest_obj person_name filer_id = Inr (c0, created, db1)"
      using f0 cr by simp
    show "c0 \<in> set (candidacies db1)" by (rule m)
    show "c = ?c" by (rule c)
    show "db' = db1\<lparr>candidacies :=
                    map (\<lambda>r. if cand_id r = cand_id c0 \<and>
                                cand_registration_status c0 \<noteq> registration_status
                             then c else r)
                        (candidacies db1)\<rparr>"
      by (simp add: db' c)
    show "cand_registration_status c0 \<noteq> registration_status \<longrightarrow>
               (\<forall>r \<in> set (candidacies db'). cand_id r = cand_id c0 \<longrightarrow> r = c)"
      using over by (simp add: db' c)
  qed
  from 1 2 3 4 show ?thesis by blast
qed

text \<open>
  C6, as the code has it. Called without a filer_id, for a contest that has a post,
  \<open>get_or_create_candidacy\<close> matches by name: it looks up the candidacy of the contest on
  the first post of the contest whose person has the sort name \<open>person_name\<close>. The one
  that exists is returned with created = False and no person is created; only when none
  exists on that post are a new person and a new candidacy created (created = True).
\<close>

theorem get_or_create_candidacy_by_name:
  assumes "\<not> truthy filer_id" and "first_post db contest_obj = Inr post"
  shows "(candidacies_by_sort_name db contest_obj post person_name = [c] \<longrightarrow>
            (\<exists>db'. get_or_create_candidacy dbg db contest_obj person_name registration_status filer_id
                    = Inr (c\<lparr>cand_registration_status := registration_status\<rparr>, False, db') \<and>
                  persons db' = persons db \<and>
                  length (candidacies db') = length (candidacies db))) \<and>
         (candidacies_by_sort_name db contest_obj post person_name = [] \<longrightarrow>
            (\<exists>new c' db'.
                get_or_create_candidacy dbg db contest_obj person_name registration_status filer_id
                    = Inr (c', True, db') \<and>
                persons db' = persons db @ [new] \<and> pers_sort_name new = person_name \<and>
                cand_person c' = pers_id new \<and> cand_contest c' = contest_obj \<and>
                cand_post c' = post \<and> cand_candidate_name c' = person_name \<and>
                length (candidacies db') = Suc (length (candidacies db)))) \<and>
         (\<forall>c' db'.
            get_or_create_candidacy dbg db contest_obj person_name registration_status filer_id
                = Inr (c', True, db') \<longrightarrow>
            candidacies_by_sort_name db contest_obj post person_name = [])"
proof (intro conjI impI allI)
  assume "candidacies_by_sort_name db contest_obj post person_name = [c]"
  then have f: "find_or_create_candidacy dbg db contest_obj person_name filer_id = Inr (c, False, db)"
    by (simp add: find_or_create_by_name [OF assms])
  show "\<exists>db'. get_or_create_candidacy dbg db contest_obj person_name registration_status filer_id
                    = Inr (c\<lparr>cand_registration_status := registration_status\<rparr>, False, db') \<and>
                  persons db' = persons db \<and>
                  length (candidacies db') = length (candidacies db)"
    by (cases "cand_registration_status c = registration_status")
       (auto simp: get_or_create_candidacy_def f Let_def save_candidacy_def)
next
  assume "candidacies_by_sort_name db contest_obj post person_name = []"
  then obtain new c0 db1 where
    f: "find_or_create_candidacy dbg db contest_obj person_name filer_id = Inr (c0, True, db1)"
    and p: "persons db1 = persons db @ [new]" "pers_sort_name new = person_name"
      "cand_person c0 = pers_id new" "cand_contest c0 = contest_obj" "cand_post c0 = post"
      "cand_candidate_name c0 = person_name"
      "length (candidacies db1) = Suc (length (candidacies db))"
    by (simp add: find_or_create_by_name [OF assms] Let_def)
  show "\<exists>new c' db'.
                get_or_create_candidacy dbg db contest_obj person_name registration_status filer_id
                    = Inr (c', True, db') \<and>
                persons db' = persons db @ [new] \<and> pers_sort_name new = person_name \<and>
                cand_person c' = pers_id new \<and> cand_contest c' = contest_obj \<and>
                cand_post c' = post \<and> cand_candidate_name c' = person_name \<and>
                length (candidacies db') = Suc (length (candidacies db))"
    using p
    by (cases "cand_registration_status c0 = registration_status")
       (auto simp: get_or_create_candidacy_def f Let_def save_candidacy_def)
next
  fix c' db'
  assume g: "get_or_create_candidacy dbg db contest_obj person_name registration_status filer_id
                = Inr (c', True, db')"
  then obtain c0 db1 where
    f: "find_or_create_candidacy dbg db contest_obj person_name filer_id = Inr (c0, True, db1)"
    by (cases "find_or_create_candidacy dbg db contest_obj person_name filer_id")
       (auto simp: get_or_create_candidacy_def Let_def split: if_splits)
  show "candidacies_by_sort_name db contest_obj post person_name = []"
  proof (cases "candidacies_by_sort_name db contest_obj post person_name" rule: get_one.cases)
    case 1
    then show ?thesis .
  next
    case (2 x)
    with f show ?thesis by (simp add: find_or_create_by_name [OF assms])
  next
    case (3 x y zs)
    with f show ?thesis
      by (cases dbg) (simp_all add: find_or_create_by_name [OF assms] set_trace_def)
  qed
qed


lemma example_first_post: "first_post example_db 50 = Inr 30"
  by (simp add: first_post_def example_db_def)

lemma example_candidacies_ROE:
  "candidacies_by_sort_name example_db 50 30 ''ROE, JOHN'' =
     [\<lparr>cand_id = 40, cand_contest = 50, cand_person = 3, cand_post = 30,
       cand_candidate_name = ''ROE, JOHN'', cand_registration_status = Some ''filed''\<rparr>]"
  by (simp add: candidacies_by_sort_name_def example_db_def)

lemma example_candidacies_POE:
  "candidacies_by_sort_name example_db 50 30 ''POE, ANN'' = []"
  by (simp add: candidacies_by_sort_name_def example_db_def)

theorem get_or_create_candidacy_by_name_witness:
  "(\<exists>db'. get_or_create_candidacy Continue example_db 50 ''ROE, JOHN'' (Some ''qualified'') None
       = Inr (\<lparr>cand_id = 40, cand_contest = 50, cand_person = 3, cand_post = 30,
               cand_candidate_name = ''ROE, JOHN'',
               cand_registration_status = Some ''qualified''\<rparr>, False, db') \<and>
       persons db' = persons example_db) \<and>
   (\<exists>new c' db'. get_or_create_candidacy Continue example_db 50 ''POE, ANN'' (Some ''qualified'') None
       = Inr (c', True, db') \<and>
       persons db' = persons example_db @ [new] \<and> pers_sort_name new = ''POE, ANN'' \<and>
       cand_person c' = pers_id new)"
proof -
  have t: "\<not> truthy None" by (simp add: truthy_def)
  have a: "\<exists>db'. get_or_create_candidacy Continue example_db 50 ''ROE, JOHN'' (Some ''qualified'') None
       = Inr (\<lparr>cand_id = 40, cand_contest = 50, cand_person = 3, cand_post = 30,
               cand_candidate_name = ''ROE, JOHN'',
               cand_registration_status = Some ''qualified''\<rparr>, False, db') \<and>
       persons db' = persons example_db"
    using get_or_create_candidacy_by_name [OF t example_first_post, of "''ROE, JOHN''"
        "\<lparr>cand_id = 40, cand_contest = 50, cand_person = 3, cand_post = 30,
          cand_candidate_name = ''ROE, JOHN'', cand_registration_status = Some ''filed''\<rparr>"
        Continue "Some ''qualified''"]
      example_candidacies_ROE
    by auto
  have b: "\<exists>new c' db'. get_or_create_candidacy Continue example_db 50 ''POE, ANN'' (Some ''qualified'') None
       = Inr (c', True, db') \<and>
       persons db' = persons example_db @ [new] \<and> pers_sort_name new = ''POE, ANN'' \<and>
       cand_person c' = pers_id new"
    using get_or_create_candidacy_by_name [OF t example_first_post, of "''POE, ANN''" _
        Continue "Some ''qualified''"]
      example_candidacies_POE
    by auto
  from a b show ?thesis by simp
qed

text \<open>
  C6 as stated looks at every candidacy of the contest. Here the contest has a candidacy
  whose person has the sort name, on its second post; the lookup is on the first post, finds
  none, and a new person and a new candidacy are created.
\<close>

theorem get_or_create_candidacy_second_post_counterexample:
  "list_ex (\<lambda>c. cand_contest c = 50 \<and>
       list_ex (\<lambda>p. pers_id p = cand_person c \<and> pers_sort_name p = ''ROE, JOHN'')
         (persons example_db_two_posts))
     (candidacies example_db_two_posts) \<and>
   (\<exists>c db'. get_or_create_candidacy Continue example_db_two_posts 50 ''ROE, JOHN'' (Some ''filed'') None
       = Inr (c, True, db') \<and>
       length (persons db') = Suc (length (persons example_db_two_posts)) \<and>
       length (candidacies db') = Suc (length (candidacies example_db_two_posts)))"
proof -
  have fp: "first_post example_db_two_posts 50 = Inr 31"
    by (simp add: first_post_def example_db_two_posts_def)
  have none: "candidacies_by_sort_name example_db_two_posts 50 31 ''ROE, JOHN'' = []"
    by (simp add: candidacies_by_sort_name_def example_db_two_posts_def example_db_def)
  have t: "\<not> truthy None" by (simp add: truthy_def)
  have ex: "list_ex (\<lambda>c. cand_contest c = 50 \<and>
       list_ex (\<lambda>p. pers_id p = cand_person c \<and> pers_sort_name p = ''ROE, JOHN'')
         (persons example_db_two_posts))
     (candidacies example_db_two_posts)"
    by (simp add: example_db_two_posts_def example_db_def)
  have "find_or_create_candidacy Continue example_db_two_posts 50 ''ROE, JOHN'' None =
      (let new = \<lparr>pers_id = next_id example_db_two_posts,
                      pers_name = str_strip (str_join '' '' (rev (str_split CHR '','' ''ROE, JOHN''))),
                      pers_sort_name = ''ROE, JOHN''\<rparr>;
               c = \<lparr>cand_id = Suc (next_id example_db_two_posts), cand_contest = 50,
                     cand_person = next_id example_db_two_posts,
                     cand_post = 31, cand_candidate_name = ''ROE, JOHN'',
                     cand_registration_status = None\<rparr>
           in Inr (c, True, example_db_two_posts\<lparr>persons := persons example_db_two_posts @ [new],
                                candidacies := candidacies example_db_two_posts @ [c],
                                next_id := Suc (Suc (next_id example_db_two_posts))\<rparr>))"
    by (simp add: find_or_create_by_name [OF t fp] none)
  then have "\<exists>c db'. get_or_create_candidacy Continue example_db_two_posts 50 ''ROE, JOHN''
        (Some ''filed'') None = Inr (c, True, db') \<and>
       length (persons db') = Suc (length (persons example_db_two_posts)) \<and>
       length (candidacies db') = Suc (length (candidacies example_db_two_posts))"
    by (simp add: get_or_create_candidacy_def Let_def save_candidacy_def)
  with ex show ?thesis by simp
qed

theorem get_or_create_candidacy_registration_status_witness:
  "(\<exists>c db'. get_or_create_candidacy Continue example_db 50 ''ROE, JOHN'' (Some ''qualified'')
        (Some ''5678'') = Inr (c, False, db') \<and>
      c = \<lparr>cand_id = 40, cand_contest = 50, cand_person = 3, cand_post = 30,
            cand_candidate_name = ''ROE, JOHN'', cand_registration_status = Some ''qualified''\<rparr> \<and>
      candidacies db' = [c]) \<and>
   (\<exists>c db'. get_or_create_candidacy Continue example_db 50 ''POE, ANN'' (Some ''qualified'')
        (Some ''4321'') = Inr (c, True, db') \<and>
      cand_registration_status c = Some ''qualified'' \<and> c \<in> set (candidacies db') \<and>
      map cand_id (candidacies db') = [40, cand_id c])"
proof -
  have p1: "persons_by_filer_id example_db ''5678'' =
      [\<lparr>pers_id = 3, pers_name = ''JOHN ROE'', pers_sort_name = ''ROE, JOHN''\<rparr>]"
    by (simp add: persons_by_filer_id_def has_filer_id_def example_db_def)
  have g1: "get_or_create_person Continue example_db ''ROE, JOHN'' (Some ''5678'') =
      Inr (\<lparr>pers_id = 3, pers_name = ''JOHN ROE'', pers_sort_name = ''ROE, JOHN''\<rparr>, False,
           example_db)"
    by (simp add: get_or_create_person_def lookup_person_def p1)
  have c1: "candidacies_by_person example_db 50 3 30 ''ROE, JOHN'' =
     [\<lparr>cand_id = 40, cand_contest = 50, cand_person = 3, cand_post = 30,
       cand_candidate_name = ''ROE, JOHN'', cand_registration_status = Some ''filed''\<rparr>]"
    by (simp add: candidacies_by_person_def example_db_def)
  have f1: "find_or_create_candidacy Continue example_db 50 ''ROE, JOHN'' (Some ''5678'') =
      Inr (\<lparr>cand_id = 40, cand_contest = 50, cand_person = 3, cand_post = 30,
       cand_candidate_name = ''ROE, JOHN'', cand_registration_status = Some ''filed''\<rparr>, False,
       example_db)"
    by (simp add: find_or_create_candidacy_def truthy_def g1 example_first_post c1)
  then obtain c db' where r1: "get_or_create_candidacy Continue example_db 50 ''ROE, JOHN''
        (Some ''qualified'') (Some ''5678'') = Inr (c, False, db')"
    by (simp add: get_or_create_candidacy_def Let_def)
  have rows: "candidacies example_db =
     [\<lparr>cand_id = 40, cand_contest = 50, cand_person = 3, cand_post = 30,
       cand_candidate_name = ''ROE, JOHN'', cand_registration_status = Some ''filed''\<rparr>]"
    by (simp add: example_db_def)
  from get_or_create_candidacy_registration_status [OF r1] f1
  have "c = \<lparr>cand_id = 40, cand_contest = 50, cand_person = 3, cand_post = 30,
            cand_candidate_name = ''ROE, JOHN'', cand_registration_status = Some ''qualified''\<rparr> \<and>
      candidacies db' = [c]"
    by (auto simp: rows)
  with r1 have a: "\<exists>c db'. get_or_create_candidacy Continue example_db 50 ''ROE, JOHN''
        (Some ''qualified'') (Some ''5678'') = Inr (c, False, db') \<and>
      c = \<lparr>cand_id = 40, cand_contest = 50, cand_person = 3, cand_post = 30,
            cand_candidate_name = ''ROE, JOHN'', cand_registration_status = Some ''qualified''\<rparr> \<and>
      candidacies db' = [c]"
    by blast
  have p2: "persons_by_filer_id example_db ''4321'' = []"
    by (simp add: persons_by_filer_id_def has_filer_id_def example_db_def)
  have l2: "lookup_person Continue example_db (Some ''4321'') = Inr (None, example_db)"
    by (simp add: lookup_person_def p2)
  have n: "next_id example_db = 100" "contest_posts example_db = [\<lparr>cp_contest = 50, cp_post = 30\<rparr>]"
    "filter (\<lambda>c. cand_person c = 100) (candidacies example_db) = []"
    by (simp_all add: example_db_def)
  have "\<exists>new db1. get_or_create_person Continue example_db ''POE, ANN'' (Some ''4321'') =
      Inr (new, True, db1) \<and> pers_id new = 100 \<and>
      contest_posts db1 = [\<lparr>cp_contest = 50, cp_post = 30\<rparr>] \<and>
      filter (\<lambda>c. cand_person c = 100) (candidacies db1) = []"
    by (simp add: get_or_create_person_def l2 create_person_def Let_def n)
  then obtain new db1 where g: "get_or_create_person Continue example_db ''POE, ANN'' (Some ''4321'') =
      Inr (new, True, db1)" "pers_id new = 100"
    and cp: "contest_posts db1 = [\<lparr>cp_contest = 50, cp_post = 30\<rparr>]"
    and ca: "filter (\<lambda>c. cand_person c = 100) (candidacies db1) = []"
    by blast
  from cp have fp2: "first_post db1 50 = Inr 30" by (simp add: first_post_def)
  from ca have "filter (\<lambda>c. cand_contest c = 50 \<and> cand_person c = 100 \<and> cand_post c = 30 \<and>
      cand_candidate_name c = ''POE, ANN'') (candidacies db1) = []"
    by (auto simp: filter_empty_conv)
  then have cb: "candidacies_by_person db1 50 100 30 ''POE, ANN'' = []"
    by (simp add: candidacies_by_person_def)
  have "\<exists>c0 db2. find_or_create_candidacy Continue example_db 50 ''POE, ANN'' (Some ''4321'')
      = Inr (c0, True, db2)"
    by (simp add: find_or_create_candidacy_def truthy_def g fp2 cb create_candidacy_def Let_def)
  then obtain c0 db2 where
    "find_or_create_candidacy Continue example_db 50 ''POE, ANN'' (Some ''4321'') = Inr (c0, True, db2)"
    by blast
  then obtain c' db'' where r2: "get_or_create_candidacy Continue example_db 50 ''POE, ANN''
        (Some ''qualified'') (Some ''4321'') = Inr (c', True, db'')"
    by (cases "cand_registration_status c0 = Some ''qualified''")
       (simp_all add: get_or_create_candidacy_def Let_def)
  from get_or_create_candidacy_registration_status [OF r2]
  have "cand_registration_status c' = Some ''qualified'' \<and> c' \<in> set (candidacies db'') \<and>
      map cand_id (candidacies db'') = [40, cand_id c']"
    by (simp add: rows)
  with r2 have b: "\<exists>c db'. get_or_create_candidacy Continue example_db 50 ''POE, ANN''
        (Some ''qualified'') (Some ''4321'') = Inr (c, True, db') \<and>
      cand_registration_status c = Some ''qualified'' \<and> c \<in> set (candidacies db') \<and>
      map cand_id (candidacies db') = [40, cand_id c]"
    by (intro exI [of _ c'] exI [of _ db'']) simp
  from a b show ?thesis by simp
qed

end
